theory Spec2Isabelle
  imports Complex_Main "HOL-Library.Word"
begin

section \<open>LandsatFire v1.0: the pixel classification engine\<close>

text \<open>
  A shallow embedding of \<^verbatim>\<open>LandsatFire_v1_0.py\<close>. The script keeps the seven band
  arrays and the four derived arrays in module-level variables; here they are the fields
  of a record that every function reads. NumPy arrays are lists of rows, a masked array
  is a data grid together with a mask grid, and 8-bit integers are \<open>8 word\<close>.
\<close>

subsection \<open>Floating-point values\<close>

text \<open>
  A float is a real number or one of the three non-finite values. The arithmetic of the
  non-finite values is IEEE 754's: it is what makes \<^verbatim>\<open>band7/band5\<close> with a zero
  denominator a value and not an exception, and what makes every comparison with NaN
  false. The operations below are the exact ones; the rounding of a float format is added
  to them further down, for the window statistics of the potential-fire detector, where
  the result hinges on it. The sign of zero is not modelled: a zero divisor counts as
  \<open>+0\<close>.
\<close>

datatype pyfloat = Finite real | PosInf | NegInf | NaN

fun f_neg :: "pyfloat \<Rightarrow> pyfloat" where
  "f_neg (Finite a) = Finite (- a)"
| "f_neg PosInf = NegInf"
| "f_neg NegInf = PosInf"
| "f_neg NaN = NaN"

fun f_add :: "pyfloat \<Rightarrow> pyfloat \<Rightarrow> pyfloat" where
  "f_add NaN y = NaN"
| "f_add x NaN = NaN"
| "f_add (Finite a) (Finite b) = Finite (a + b)"
| "f_add PosInf NegInf = NaN"
| "f_add NegInf PosInf = NaN"
| "f_add PosInf y = PosInf"
| "f_add x PosInf = PosInf"
| "f_add NegInf y = NegInf"
| "f_add x NegInf = NegInf"

definition f_sub :: "pyfloat \<Rightarrow> pyfloat \<Rightarrow> pyfloat" where
  "f_sub x y = f_add x (f_neg y)"

text \<open>The sign a product or quotient with an infinity takes.\<close>

definition signed_inf :: "bool \<Rightarrow> pyfloat" where
  "signed_inf positive = (if positive then PosInf else NegInf)"

fun f_mul :: "pyfloat \<Rightarrow> pyfloat \<Rightarrow> pyfloat" where
  "f_mul NaN y = NaN"
| "f_mul x NaN = NaN"
| "f_mul (Finite a) (Finite b) = Finite (a * b)"
| "f_mul (Finite a) PosInf = (if a = 0 then NaN else signed_inf (0 < a))"
| "f_mul (Finite a) NegInf = (if a = 0 then NaN else signed_inf (a < 0))"
| "f_mul PosInf (Finite b) = (if b = 0 then NaN else signed_inf (0 < b))"
| "f_mul NegInf (Finite b) = (if b = 0 then NaN else signed_inf (b < 0))"
| "f_mul PosInf PosInf = PosInf"
| "f_mul PosInf NegInf = NegInf"
| "f_mul NegInf PosInf = NegInf"
| "f_mul NegInf NegInf = PosInf"

text \<open>
  Division as NumPy does it under \<^verbatim>\<open>np.errstate(divide='ignore', invalid='ignore')\<close>,
  and with a warning only outside it: \<open>x/0\<close> is an infinity of the sign of \<open>x\<close>, and
  \<open>0/0\<close> is NaN. Nothing is raised.
\<close>

fun f_div :: "pyfloat \<Rightarrow> pyfloat \<Rightarrow> pyfloat" where
  "f_div NaN y = NaN"
| "f_div x NaN = NaN"
| "f_div (Finite a) (Finite b) =
     (if b = 0 then (if a = 0 then NaN else signed_inf (0 < a)) else Finite (a / b))"
| "f_div (Finite a) PosInf = Finite 0"
| "f_div (Finite a) NegInf = Finite 0"
| "f_div PosInf (Finite b) = signed_inf (0 \<le> b)"
| "f_div NegInf (Finite b) = signed_inf (b < 0)"
| "f_div PosInf PosInf = NaN"
| "f_div PosInf NegInf = NaN"
| "f_div NegInf PosInf = NaN"
| "f_div NegInf NegInf = NaN"

text \<open>\<^verbatim>\<open>x**0.5\<close> on a float array: the square root, NaN below zero.\<close>

fun f_sqrt :: "pyfloat \<Rightarrow> pyfloat" where
  "f_sqrt (Finite a) = (if a < 0 then NaN else Finite (sqrt a))"
| "f_sqrt PosInf = PosInf"
| "f_sqrt NegInf = NaN"
| "f_sqrt NaN = NaN"

text \<open>The comparisons \<^verbatim>\<open>>\<close> and \<^verbatim>\<open><\<close>: false as soon as one side is NaN.\<close>

fun f_gt :: "pyfloat \<Rightarrow> pyfloat \<Rightarrow> bool" where
  "f_gt (Finite a) (Finite b) = (b < a)"
| "f_gt PosInf (Finite b) = True"
| "f_gt PosInf NegInf = True"
| "f_gt (Finite a) NegInf = True"
| "f_gt x y = False"

definition f_lt :: "pyfloat \<Rightarrow> pyfloat \<Rightarrow> bool" where
  "f_lt x y = f_gt y x"

definition f_le :: "pyfloat \<Rightarrow> pyfloat \<Rightarrow> bool" where
  "f_le x y = (x \<noteq> NaN \<and> y \<noteq> NaN \<and> \<not> f_gt x y)"

definition is_finite :: "pyfloat \<Rightarrow> bool" where
  "is_finite x = (case x of Finite a \<Rightarrow> True | _ \<Rightarrow> False)"

subsection \<open>Rounding\<close>

text \<open>
  A float operation returns the exact result rounded to the float format. The rounding
  is a parameter \<open>fl\<close> of everything that computes the window statistics: it maps the
  exact result to the float that is returned, and nothing is assumed of it but what a
  statement says. An exact result of zero is a float in every format and is returned as
  it is; non-finite values are not rounded. Overflow to an infinity is not modelled.
\<close>

definition rnd :: "(real \<Rightarrow> real) \<Rightarrow> pyfloat \<Rightarrow> pyfloat" where
  "rnd fl x =
     (case x of Finite a \<Rightarrow> Finite (if a = 0 then 0 else fl a) | PosInf \<Rightarrow> PosInf
      | NegInf \<Rightarrow> NegInf | NaN \<Rightarrow> NaN)"

definition r_add :: "(real \<Rightarrow> real) \<Rightarrow> pyfloat \<Rightarrow> pyfloat \<Rightarrow> pyfloat" where
  "r_add fl x y = rnd fl (f_add x y)"

definition r_sub :: "(real \<Rightarrow> real) \<Rightarrow> pyfloat \<Rightarrow> pyfloat \<Rightarrow> pyfloat" where
  "r_sub fl x y = rnd fl (f_sub x y)"

definition r_mul :: "(real \<Rightarrow> real) \<Rightarrow> pyfloat \<Rightarrow> pyfloat \<Rightarrow> pyfloat" where
  "r_mul fl x y = rnd fl (f_mul x y)"

definition r_div :: "(real \<Rightarrow> real) \<Rightarrow> pyfloat \<Rightarrow> pyfloat \<Rightarrow> pyfloat" where
  "r_div fl x y = rnd fl (f_div x y)"

definition r_sqrt :: "(real \<Rightarrow> real) \<Rightarrow> pyfloat \<Rightarrow> pyfloat" where
  "r_sqrt fl x = rnd fl (f_sqrt x)"

text \<open>
  Two roundings to compute with: the one that changes nothing, and rounding up to the
  next integer. And what it is for a rounding to leave the multiples
  \<open>0, v, 2v, \<dots>, nv\<close> of a value as they are, and to leave every multiple of \<open>1/4\<close>
  up to 250 as it is, as every binary float format with a significand of ten bits or more
  does.
\<close>

definition unrounded :: "real \<Rightarrow> real" where
  "unrounded x = x"

definition round_up :: "real \<Rightarrow> real" where
  "round_up x = real_of_int \<lceil>x\<rceil>"

definition exact_multiples :: "(real \<Rightarrow> real) \<Rightarrow> nat \<Rightarrow> real \<Rightarrow> bool" where
  "exact_multiples fl n v = (\<forall>k \<in> {..n}. fl (real k * v) = real k * v)"

definition exact_on_quarters :: "(real \<Rightarrow> real) \<Rightarrow> bool" where
  "exact_on_quarters fl = (\<forall>n \<in> {..1000 :: nat}. fl (real n / 4) = real n / 4)"

subsection \<open>Arrays\<close>

type_synonym 'a grid = "'a list list"

text \<open>\<^verbatim>\<open>a.shape\<close> of a two-dimensional array.\<close>

definition shape :: "'a grid \<Rightarrow> nat \<times> nat" where
  "shape a = (length a, case a of [] \<Rightarrow> 0 | r # rs \<Rightarrow> length r)"

text \<open>An array of \<open>h\<close> rows that all have \<open>w\<close> columns.\<close>

definition shaped :: "nat \<Rightarrow> nat \<Rightarrow> 'a grid \<Rightarrow> bool" where
  "shaped h w a = (length a = h \<and> list_all (\<lambda>r. length r = w) a)"

text \<open>
  Elementwise operations. NumPy applies them to operands of one shape (the script relies
  on the shape check for that); every statement below is about arrays of one shape.
\<close>

definition mapg :: "('a \<Rightarrow> 'b) \<Rightarrow> 'a grid \<Rightarrow> 'b grid" where
  "mapg f a = map (map f) a"

definition map2g :: "('a \<Rightarrow> 'b \<Rightarrow> 'c) \<Rightarrow> 'a grid \<Rightarrow> 'b grid \<Rightarrow> 'c grid" where
  "map2g f a b = map2 (map2 f) a b"

definition np_logical_and :: "bool grid \<Rightarrow> bool grid \<Rightarrow> bool grid" where
  "np_logical_and a b = map2g (\<lambda>x y. x \<and> y) a b"

definition np_logical_or :: "bool grid \<Rightarrow> bool grid \<Rightarrow> bool grid" where
  "np_logical_or a b = map2g (\<lambda>x y. x \<or> y) a b"

definition np_invert :: "bool grid \<Rightarrow> bool grid" where
  "np_invert a = mapg (\<lambda>x. \<not> x) a"

text \<open>\<^verbatim>\<open>a > c\<close> and \<^verbatim>\<open>a < c\<close> with a scalar, \<^verbatim>\<open>a > b\<close> with an array.\<close>

definition gt_scalar :: "pyfloat grid \<Rightarrow> pyfloat \<Rightarrow> bool grid" where
  "gt_scalar a c = mapg (\<lambda>x. f_gt x c) a"

definition lt_scalar :: "pyfloat grid \<Rightarrow> pyfloat \<Rightarrow> bool grid" where
  "lt_scalar a c = mapg (\<lambda>x. f_lt x c) a"

definition gt_array :: "pyfloat grid \<Rightarrow> pyfloat grid \<Rightarrow> bool grid" where
  "gt_array a b = map2g f_gt a b"

subsection \<open>The module's arrays\<close>

record bands =
  band1 :: "pyfloat grid"
  band2 :: "pyfloat grid"
  band3 :: "pyfloat grid"
  band4 :: "pyfloat grid"
  band5 :: "pyfloat grid"
  band6 :: "pyfloat grid"
  band7 :: "pyfloat grid"

record globals = bands +
  ratio75 :: "pyfloat grid"
  ratio76 :: "pyfloat grid"
  diff17 :: "pyfloat grid"
  diff75 :: "pyfloat grid"

text \<open>
  ``Creating ratio and difference arrays'':
  \<^verbatim>\<open>ratio75 = band7/band5; ratio76 = band7/band6; diff17 = band1 - band7; diff75 = band7-band5\<close>.
\<close>

definition derive :: "bands \<Rightarrow> globals" where
  "derive b =
     \<lparr> band1 = band1 b, band2 = band2 b, band3 = band3 b, band4 = band4 b,
       band5 = band5 b, band6 = band6 b, band7 = band7 b,
       ratio75 = map2g f_div (band7 b) (band5 b),
       ratio76 = map2g f_div (band7 b) (band6 b),
       diff17 = map2g f_sub (band1 b) (band7 b),
       diff75 = map2g f_sub (band7 b) (band5 b) \<rparr>"

text \<open>The seven bands have one shape.\<close>

definition bands_shaped :: "nat \<Rightarrow> nat \<Rightarrow> 'x bands_scheme \<Rightarrow> bool" where
  "bands_shaped h w b =
     (shaped h w (band1 b) \<and> shaped h w (band2 b) \<and> shaped h w (band3 b) \<and>
      shaped h w (band4 b) \<and> shaped h w (band5 b) \<and> shaped h w (band6 b) \<and>
      shaped h w (band7 b))"

text \<open>A one-pixel image, for the worked examples.\<close>

definition pixel :: "real \<Rightarrow> real \<Rightarrow> real \<Rightarrow> real \<Rightarrow> real \<Rightarrow> real \<Rightarrow> real \<Rightarrow> bands" where
  "pixel b1 b2 b3 b4 b5 b6 b7 =
     \<lparr> band1 = [[Finite b1]], band2 = [[Finite b2]], band3 = [[Finite b3]],
       band4 = [[Finite b4]], band5 = [[Finite b5]], band6 = [[Finite b6]],
       band7 = [[Finite b7]] \<rparr>"

subsection \<open>The detectors\<close>

text \<open>
  Each detector also takes \<^verbatim>\<open>write_values\<close>; with it the array is written to a
  GeoTIFF as well. The returned array does not depend on it, and it is left out.
\<close>

definition unambiguous_fire :: "globals \<Rightarrow> bool grid" where
  "unambiguous_fire g =
     (let fire_test_1 = gt_scalar (ratio75 g) (Finite 2.5);
          fire_test_2 = gt_scalar (diff75 g) (Finite 0.3);
          fire_test_3 = gt_scalar (band7 g) (Finite 0.5)
      in np_logical_and fire_test_1 (np_logical_and fire_test_2 fire_test_3))"

definition dn_fold :: "globals \<Rightarrow> bool grid" where
  "dn_fold g =
     (let dn_fold_test_1 = gt_scalar (band6 g) (Finite 0.8);
          dn_fold_test_2 = lt_scalar (band1 g) (Finite 0.2);
          dn_fold_test_3 = gt_scalar (band5 g) (Finite 0.4);
          dn_fold_test_4 = lt_scalar (band7 g) (Finite 0.1);
          dn_fold_criterion_1 = np_logical_and dn_fold_test_1 dn_fold_test_2;
          dn_fold_criterion_2 = np_logical_or dn_fold_test_3 dn_fold_test_4
      in np_logical_and dn_fold_criterion_1 dn_fold_criterion_2)"

definition water_pixels :: "globals \<Rightarrow> bool grid" where
  "water_pixels g =
     (let water_criterion_1 =
            np_logical_and (gt_array (band4 g) (band5 g)) (gt_array (band5 g) (band6 g));
          water_criterion_2 =
            np_logical_and (gt_array (band6 g) (band7 g)) (lt_scalar (diff17 g) (Finite 0.2));
          water_base_criterion = np_logical_and water_criterion_1 water_criterion_2;
          water_criterion_3 = gt_array (band3 g) (band2 g);
          water_criterion_4 =
            np_logical_and
              (np_logical_and (gt_array (band1 g) (band2 g)) (gt_array (band2 g) (band3 g)))
              (gt_array (band3 g) (band4 g));
          water_type_criterion = np_logical_or water_criterion_3 water_criterion_4
      in np_logical_and water_base_criterion water_type_criterion)"

definition background :: "globals \<Rightarrow> bool grid \<Rightarrow> bool grid \<Rightarrow> bool grid" where
  "background g unambiguous_array water_array =
     (let background_pix = np_invert (np_logical_or unambiguous_array water_array)
      in np_logical_and background_pix (gt_scalar (band7 g) (Finite 0)))"

subsection \<open>Masked arrays\<close>

text \<open>
  A \<^verbatim>\<open>numpy.ma\<close> masked array: the data, and a mask that is True where the element is
  masked (excluded). The data under the mask is still there: \<^verbatim>\<open>.data\<close> reads it.
\<close>

record 'a marray =
  ma_data :: "'a grid"
  ma_mask :: "bool grid"

definition masked_array :: "'a grid \<Rightarrow> bool grid \<Rightarrow> 'a marray" where
  "masked_array d m = \<lparr> ma_data = d, ma_mask = m \<rparr>"

text \<open>
  A comparison of a masked array compares the data and keeps the mask;
  \<^verbatim>\<open>np.logical_and\<close> of two masked arrays combines the data and joins the masks.
\<close>

definition ma_gt_scalar :: "pyfloat marray \<Rightarrow> pyfloat \<Rightarrow> bool marray" where
  "ma_gt_scalar a c = \<lparr> ma_data = gt_scalar (ma_data a) c, ma_mask = ma_mask a \<rparr>"

definition ma_gt_array :: "pyfloat marray \<Rightarrow> pyfloat grid \<Rightarrow> bool marray" where
  "ma_gt_array a b = \<lparr> ma_data = gt_array (ma_data a) b, ma_mask = ma_mask a \<rparr>"

definition ma_logical_and :: "bool marray \<Rightarrow> bool marray \<Rightarrow> bool marray" where
  "ma_logical_and a b =
     \<lparr> ma_data = np_logical_and (ma_data a) (ma_data b),
       ma_mask = np_logical_or (ma_mask a) (ma_mask b) \<rparr>"

text \<open>
  Slice assignment. \<^verbatim>\<open>a[:n,:] = v\<close> writes the first \<open>n\<close> rows (all of them when there
  are fewer), \<^verbatim>\<open>a[-n:,:] = v\<close> the last \<open>n\<close>; likewise for columns.
\<close>

definition assign_rows :: "nat \<Rightarrow> nat \<Rightarrow> 'a \<Rightarrow> 'a grid \<Rightarrow> 'a grid" where
  "assign_rows lo hi v a =
     map (\<lambda>(i, row). if lo \<le> i \<and> i < hi then map (\<lambda>x. v) row else row) (enumerate 0 a)"

definition assign_cols :: "nat \<Rightarrow> nat \<Rightarrow> 'a \<Rightarrow> 'a list \<Rightarrow> 'a list" where
  "assign_cols lo hi v row =
     map (\<lambda>(j, x). if lo \<le> j \<and> j < hi then v else x) (enumerate 0 row)"

definition assign_first_rows :: "nat \<Rightarrow> 'a \<Rightarrow> 'a grid \<Rightarrow> 'a grid" where
  "assign_first_rows n v a = assign_rows 0 n v a"

definition assign_last_rows :: "nat \<Rightarrow> 'a \<Rightarrow> 'a grid \<Rightarrow> 'a grid" where
  "assign_last_rows n v a = assign_rows (length a - n) (length a) v a"

definition assign_first_cols :: "nat \<Rightarrow> 'a \<Rightarrow> 'a grid \<Rightarrow> 'a grid" where
  "assign_first_cols n v a = map (\<lambda>row. assign_cols 0 n v row) a"

definition assign_last_cols :: "nat \<Rightarrow> 'a \<Rightarrow> 'a grid \<Rightarrow> 'a grid" where
  "assign_last_cols n v a = map (\<lambda>row. assign_cols (length row - n) (length row) v row) a"

text \<open>
  Assigning the plain value 0 to a slice of a masked array writes the data and clears
  the mask there.
\<close>

definition ma_assign :: "('a grid \<Rightarrow> 'a grid) \<Rightarrow> (bool grid \<Rightarrow> bool grid) \<Rightarrow> 'a marray \<Rightarrow> 'a marray" where
  "ma_assign on_data on_mask a = \<lparr> ma_data = on_data (ma_data a), ma_mask = on_mask (ma_mask a) \<rparr>"

text \<open>
  Arithmetic of \<^verbatim>\<open>numpy.ma\<close>: the result is computed on the data, and where the result is
  masked its data is reverted to the data of the first operand.
\<close>

type_synonym u8 = "8 word"

definition astype_uint8 :: "bool grid \<Rightarrow> u8 grid" where
  "astype_uint8 a = mapg (\<lambda>b. if b then 1 else 0) a"

definition ma_astype_uint8 :: "bool marray \<Rightarrow> u8 marray" where
  "ma_astype_uint8 a = \<lparr> ma_data = astype_uint8 (ma_data a), ma_mask = ma_mask a \<rparr>"

definition ma_mul_scalar :: "u8 marray \<Rightarrow> u8 \<Rightarrow> u8 marray" where
  "ma_mul_scalar a c =
     \<lparr> ma_data = map2g (\<lambda>x m. if m then x else x * c) (ma_data a) (ma_mask a),
       ma_mask = ma_mask a \<rparr>"

definition ma_radd :: "u8 grid \<Rightarrow> u8 marray \<Rightarrow> u8 marray" where
  "ma_radd a b =
     \<lparr> ma_data = map2g (\<lambda>x (y, m). if m then x else x + y) a (map2g Pair (ma_data b) (ma_mask b)),
       ma_mask = ma_mask b \<rparr>"

subsection \<open>The uniform filter\<close>

text \<open>
  \<^verbatim>\<open>scipy.ndimage.uniform_filter(a, size=61)\<close>: the mean over a window of 61 elements
  centred on each element, along axis 0 and then along axis 1. Beyond the edge the array
  is continued by reflection (mode \<^verbatim>\<open>reflect\<close>: \<open>d c b a | a b c d | d c b a\<close>). The
  window is summed and the sum divided by its size, every addition and the division
  rounded; the order in which SciPy itself adds is not modelled.
\<close>

definition reflect_index :: "nat \<Rightarrow> int \<Rightarrow> nat" where
  "reflect_index n k =
     (let m = k mod (2 * int n)
      in if m < int n then nat m else nat (2 * int n - 1 - m))"

definition window :: "nat \<Rightarrow> nat \<Rightarrow> int list" where
  "window sz i = map (\<lambda>k. int i + int k - int (sz div 2)) [0..<sz]"

definition f_sum :: "(real \<Rightarrow> real) \<Rightarrow> pyfloat list \<Rightarrow> pyfloat" where
  "f_sum fl xs = foldl (r_add fl) (Finite 0) xs"

definition f_mean :: "(real \<Rightarrow> real) \<Rightarrow> nat \<Rightarrow> pyfloat list \<Rightarrow> pyfloat" where
  "f_mean fl sz xs = r_div fl (f_sum fl xs) (Finite (real sz))"

definition filter_axis0 :: "(real \<Rightarrow> real) \<Rightarrow> nat \<Rightarrow> pyfloat grid \<Rightarrow> pyfloat grid" where
  "filter_axis0 fl sz a =
     map (\<lambda>i. map (\<lambda>j. f_mean fl sz (map (\<lambda>k. a ! reflect_index (length a) k ! j) (window sz i)))
                 [0..<length (a ! i)])
         [0..<length a]"

definition uniform_filter1d :: "(real \<Rightarrow> real) \<Rightarrow> nat \<Rightarrow> pyfloat list \<Rightarrow> pyfloat list" where
  "uniform_filter1d fl sz xs =
     map (\<lambda>i. f_mean fl sz (map (\<lambda>k. xs ! reflect_index (length xs) k) (window sz i)))
         [0..<length xs]"

definition filter_axis1 :: "(real \<Rightarrow> real) \<Rightarrow> nat \<Rightarrow> pyfloat grid \<Rightarrow> pyfloat grid" where
  "filter_axis1 fl sz a = map (uniform_filter1d fl sz) a"

definition uniform_filter :: "(real \<Rightarrow> real) \<Rightarrow> nat \<Rightarrow> pyfloat grid \<Rightarrow> pyfloat grid" where
  "uniform_filter fl sz a = filter_axis1 fl sz (filter_axis0 fl sz a)"

subsection \<open>Potential fire pixels\<close>

text \<open>The masked copies of the arrays, and the direct thresholds.\<close>

definition bg_inv :: "bool grid \<Rightarrow> bool grid" where
  "bg_inv bg_array = np_invert bg_array"

definition ma_ratio75 :: "globals \<Rightarrow> bool grid \<Rightarrow> pyfloat marray" where
  "ma_ratio75 g bg_array = masked_array (ratio75 g) (bg_inv bg_array)"

definition ma_ratio76 :: "globals \<Rightarrow> bool grid \<Rightarrow> pyfloat marray" where
  "ma_ratio76 g bg_array = masked_array (ratio76 g) (bg_inv bg_array)"

definition ma_diff75 :: "globals \<Rightarrow> bool grid \<Rightarrow> pyfloat marray" where
  "ma_diff75 g bg_array = masked_array (diff75 g) (bg_inv bg_array)"

definition ma_band7 :: "globals \<Rightarrow> bool grid \<Rightarrow> pyfloat marray" where
  "ma_band7 g bg_array = masked_array (band7 g) (bg_inv bg_array)"

definition potential_test_1 :: "globals \<Rightarrow> bool grid \<Rightarrow> bool marray" where
  "potential_test_1 g bg_array =
     ma_logical_and (ma_gt_scalar (ma_ratio75 g bg_array) (Finite 1.8))
                    (ma_gt_scalar (ma_diff75 g bg_array) (Finite 0.17))"

definition potential_test_2 :: "globals \<Rightarrow> bool grid \<Rightarrow> bool marray" where
  "potential_test_2 g bg_array = ma_gt_scalar (ma_ratio76 g bg_array) (Finite 1.6)"

definition potential_test_3 :: "globals \<Rightarrow> bool grid \<Rightarrow> bool marray" where
  "potential_test_3 g bg_array =
     ma_logical_and (potential_test_1 g bg_array) (potential_test_2 g bg_array)"

text \<open>``Create a 32-bit mask for vectorised filtering'', and the masked arrays.\<close>

definition bg_mask :: "bool grid \<Rightarrow> pyfloat grid" where
  "bg_mask bg_array = mapg (\<lambda>b. Finite (if b then 1 else 0)) bg_array"

definition weights :: "(real \<Rightarrow> real) \<Rightarrow> bool grid \<Rightarrow> pyfloat grid" where
  "weights fl bg_array = uniform_filter fl 61 (bg_mask bg_array)"

text \<open>
  ``Masking arrays''. The product of a float with the mask's 1.0 or 0.0 is exact, so these
  two are not rounded.
\<close>

definition mask_band7 :: "globals \<Rightarrow> bool grid \<Rightarrow> pyfloat grid" where
  "mask_band7 g bg_array = map2g f_mul (band7 g) (bg_mask bg_array)"

definition mask_ratio75 :: "globals \<Rightarrow> bool grid \<Rightarrow> pyfloat grid" where
  "mask_ratio75 g bg_array = map2g f_mul (ratio75 g) (bg_mask bg_array)"

text \<open>``Calculating means'' and the means of the squares.\<close>

definition b7_means :: "(real \<Rightarrow> real) \<Rightarrow> globals \<Rightarrow> bool grid \<Rightarrow> pyfloat grid" where
  "b7_means fl g bg_array =
     map2g (r_div fl) (uniform_filter fl 61 (mask_band7 g bg_array)) (weights fl bg_array)"

definition ratio75_means :: "(real \<Rightarrow> real) \<Rightarrow> globals \<Rightarrow> bool grid \<Rightarrow> pyfloat grid" where
  "ratio75_means fl g bg_array =
     map2g (r_div fl) (uniform_filter fl 61 (mask_ratio75 g bg_array)) (weights fl bg_array)"

definition b7_squares :: "(real \<Rightarrow> real) \<Rightarrow> globals \<Rightarrow> bool grid \<Rightarrow> pyfloat grid" where
  "b7_squares fl g bg_array =
     map2g (r_div fl)
       (uniform_filter fl 61
          (map2g (r_mul fl) (mask_band7 g bg_array) (mask_band7 g bg_array)))
       (weights fl bg_array)"

definition ratio75_squares :: "(real \<Rightarrow> real) \<Rightarrow> globals \<Rightarrow> bool grid \<Rightarrow> pyfloat grid" where
  "ratio75_squares fl g bg_array =
     map2g (r_div fl)
       (uniform_filter fl 61
          (map2g (r_mul fl) (mask_ratio75 g bg_array) (mask_ratio75 g bg_array)))
       (weights fl bg_array)"

text \<open>
  ``Calculating standard deviations'': \<^verbatim>\<open>(squares - means*means)**0.5\<close>, then
  \<^verbatim>\<open>stddev *= 3\<close> and \<^verbatim>\<open>stddev[stddev < c] = c\<close>. The difference under the root
  is one of two nearly equal numbers where the window varies little, and rounding can
  make it negative: the root is NaN then, and the assignment leaves NaN as it is.
\<close>

definition times3 :: "(real \<Rightarrow> real) \<Rightarrow> pyfloat grid \<Rightarrow> pyfloat grid" where
  "times3 fl a = mapg (\<lambda>x. r_mul fl x (Finite 3)) a"

definition assign_below :: "pyfloat \<Rightarrow> pyfloat grid \<Rightarrow> pyfloat grid" where
  "assign_below c a = mapg (\<lambda>x. if f_lt x c then c else x) a"

definition b7_stddev :: "(real \<Rightarrow> real) \<Rightarrow> globals \<Rightarrow> bool grid \<Rightarrow> pyfloat grid" where
  "b7_stddev fl g bg_array =
     assign_below (Finite 0.08)
       (times3 fl (mapg (r_sqrt fl)
          (map2g (r_sub fl) (b7_squares fl g bg_array)
             (map2g (r_mul fl) (b7_means fl g bg_array) (b7_means fl g bg_array)))))"

definition ratio75_stddev :: "(real \<Rightarrow> real) \<Rightarrow> globals \<Rightarrow> bool grid \<Rightarrow> pyfloat grid" where
  "ratio75_stddev fl g bg_array =
     assign_below (Finite 0.8)
       (times3 fl (mapg (r_sqrt fl)
          (map2g (r_sub fl) (ratio75_squares fl g bg_array)
             (map2g (r_mul fl) (ratio75_means fl g bg_array) (ratio75_means fl g bg_array)))))"

definition potential_test_4 :: "(real \<Rightarrow> real) \<Rightarrow> globals \<Rightarrow> bool grid \<Rightarrow> bool marray" where
  "potential_test_4 fl g bg_array =
     ma_logical_and (ma_gt_array (ma_ratio75 g bg_array) (ratio75_stddev fl g bg_array))
                    (ma_gt_array (ma_band7 g bg_array) (b7_stddev fl g bg_array))"

text \<open>``Masking edges'': the four slice assignments of 0.\<close>

definition mask_the_edges :: "bool marray \<Rightarrow> bool marray" where
  "mask_the_edges a =
     ma_assign (assign_last_cols 30 False) (assign_last_cols 30 False)
       (ma_assign (assign_first_cols 30 False) (assign_first_cols 30 False)
          (ma_assign (assign_last_rows 30 False) (assign_last_rows 30 False)
             (ma_assign (assign_first_rows 30 False) (assign_first_rows 30 False) a)))"

definition potential_fire ::
  "(real \<Rightarrow> real) \<Rightarrow> globals \<Rightarrow> bool grid \<Rightarrow> bool \<Rightarrow> bool marray" where
  "potential_fire fl g bg_array mask_edges =
     (let potential_array =
            ma_logical_and (potential_test_3 g bg_array) (potential_test_4 fl g bg_array)
      in if mask_edges = True then mask_the_edges potential_array else potential_array)"

subsection \<open>The classified array\<close>

text \<open>
  \<^verbatim>\<open>potential_array\<close> is the masked array that \<open>potential_fire\<close> returns, so the last sum
  is a masked one, and the function returns its \<^verbatim>\<open>.data\<close>.
\<close>

definition make_classified_array :: "bool grid \<Rightarrow> bool grid \<Rightarrow> bool marray \<Rightarrow> u8 grid" where
  "make_classified_array dn_fold_array unambiguous_array potential_array =
     (let class_arr = mapg (\<lambda>x. 0 :: u8) dn_fold_array;
          class_arr = map2g (+) class_arr (astype_uint8 dn_fold_array);
          class_arr = map2g (+) class_arr (mapg (\<lambda>x. x * 2) (astype_uint8 unambiguous_array));
          class_arr = ma_radd class_arr (ma_mul_scalar (ma_astype_uint8 potential_array) 3)
      in ma_data class_arr)"

text \<open>A plain boolean array is a masked array with nothing masked.\<close>

definition unmasked :: "'a grid \<Rightarrow> 'a marray" where
  "unmasked a = \<lparr> ma_data = a, ma_mask = mapg (\<lambda>x. False) a \<rparr>"

subsection \<open>Pre-flight and the main calls\<close>

datatype error = TypeError | ValueError | IndexError

text \<open>
  The Python objects that \<open>check_shapes\<close> handles: integers, tuples, and the bound method
  that the attribute \<^verbatim>\<open>count\<close> of a tuple is.
\<close>

datatype pyobj = PyInt int | PyTuple "pyobj list" | TupleCount "pyobj list"

definition py_shape :: "'a grid \<Rightarrow> pyobj" where
  "py_shape a = PyTuple [PyInt (int (fst (shape a))), PyInt (int (snd (shape a)))]"

text \<open>
  \<^verbatim>\<open>x[k]\<close>. A tuple is indexed by an integer; an integer and a built-in method are not
  subscriptable.
\<close>

fun py_getitem :: "pyobj \<Rightarrow> pyobj \<Rightarrow> error + pyobj" where
  "py_getitem (PyTuple xs) (PyInt k) =
     (let n = int (length xs); j = (if k < 0 then n + k else k)
      in if 0 \<le> j \<and> j < n then Inr (xs ! nat j) else Inl IndexError)"
| "py_getitem (PyTuple xs) k = Inl TypeError"
| "py_getitem (PyInt n) k = Inl TypeError"
| "py_getitem (TupleCount xs) k = Inl TypeError"

fun py_count_attr :: "pyobj \<Rightarrow> error + pyobj" where
  "py_count_attr (PyTuple xs) = Inr (TupleCount xs)"
| "py_count_attr x = Inl TypeError"

fun py_len :: "pyobj \<Rightarrow> error + pyobj" where
  "py_len (PyTuple xs) = Inr (PyInt (int (length xs)))"
| "py_len x = Inl TypeError"

fun py_less :: "pyobj \<Rightarrow> int \<Rightarrow> error + bool" where
  "py_less (PyInt a) c = Inr (a < c)"
| "py_less x c = Inl TypeError"

definition bind :: "error + 'a \<Rightarrow> ('a \<Rightarrow> error + 'b) \<Rightarrow> error + 'b" where
  "bind r f = (case r of Inl e \<Rightarrow> Inl e | Inr x \<Rightarrow> f x)"

text \<open>
  \<^verbatim>\<open>shape_test = shapes_list.count[shapes_list[0]] == len(shapes_list)\<close>: the method is
  subscripted, not called. Then
  \<^verbatim>\<open>size_test = shapes_list[0][0]<61 or shapes_list[0][1]<61\<close>.
\<close>

definition shape_test_of :: "pyobj \<Rightarrow> error + bool" where
  "shape_test_of shapes_list =
     bind (py_count_attr shapes_list) (\<lambda>count.
     bind (py_getitem shapes_list (PyInt 0)) (\<lambda>first.
     bind (py_getitem count first) (\<lambda>n.
     bind (py_len shapes_list) (\<lambda>len. Inr (n = len)))))"

definition size_test_of :: "pyobj \<Rightarrow> error + bool" where
  "size_test_of shapes_list =
     bind (py_getitem shapes_list (PyInt 0)) (\<lambda>s0.
     bind (py_getitem s0 (PyInt 0)) (\<lambda>rows.
     bind (py_less rows 61) (\<lambda>small_rows.
     if small_rows then Inr True
     else bind (py_getitem shapes_list (PyInt 0)) (\<lambda>s1.
          bind (py_getitem s1 (PyInt 1)) (\<lambda>cols. py_less cols 61)))))"

definition check_shapes :: "'x bands_scheme \<Rightarrow> error + (bool \<times> bool)" where
  "check_shapes b =
     (let shapes_list =
            PyTuple [py_shape (band1 b), py_shape (band2 b), py_shape (band3 b),
                     py_shape (band4 b), py_shape (band5 b), py_shape (band6 b),
                     py_shape (band7 b)]
      in bind (shape_test_of shapes_list) (\<lambda>shape_test.
         bind (size_test_of shapes_list) (\<lambda>size_test. Inr (shape_test, size_test))))"

text \<open>``MAIN FUNCTION CALLS'', from the arrays to the classified array.\<close>

definition classify :: "(real \<Rightarrow> real) \<Rightarrow> bool \<Rightarrow> globals \<Rightarrow> u8 grid" where
  "classify fl edges_check g =
     (let unambiguous_pix = unambiguous_fire g;
          dn_fold_pix = dn_fold g;
          water_pix = water_pixels g;
          background_pix = background g unambiguous_pix water_pix;
          potential_pix = potential_fire fl g background_pix edges_check
      in make_classified_array dn_fold_pix unambiguous_pix potential_pix)"

text \<open>
  The script from the loaded bands on: the shape check, the \<^verbatim>\<open>ValueError\<close> when it is
  False (the size test only prints a warning), the derived arrays, the main calls.
\<close>

definition script :: "(real \<Rightarrow> real) \<Rightarrow> bool \<Rightarrow> bands \<Rightarrow> error + u8 grid" where
  "script fl edges_check b =
     bind (check_shapes b) (\<lambda>(band_shape_check, band_size_check).
       if band_shape_check = False then Inl ValueError
       else Inr (classify fl edges_check (derive b)))"

subsection \<open>The statements of the specification\<close>

text \<open>
  The tests of the potential-fire detector as the specification words them, at one pixel,
  to compare with what the code computes. The direct thresholds:
  \<open>ratio75 > 1.8\<close>, \<open>diff75 > 0.17\<close> and \<open>ratio76 > 1.6\<close>.
\<close>

definition spec_direct_test :: "globals \<Rightarrow> nat \<Rightarrow> nat \<Rightarrow> bool" where
  "spec_direct_test g i j =
     ((f_gt (ratio75 g ! i ! j) (Finite 1.8) \<and> f_gt (diff75 g ! i ! j) (Finite 0.17)) \<and>
      f_gt (ratio76 g ! i ! j) (Finite 1.6))"

text \<open>
  The local statistics of a value array \<open>x\<close>: the window average of value times indicator,
  divided by the weight; the window average of the squared value times indicator, divided
  by the weight; the square root of the second less the square of the first.
\<close>

definition spec_mean ::
  "(real \<Rightarrow> real) \<Rightarrow> pyfloat grid \<Rightarrow> bool grid \<Rightarrow> nat \<Rightarrow> nat \<Rightarrow> pyfloat" where
  "spec_mean fl x bg i j =
     r_div fl (uniform_filter fl 61 (map2g f_mul x (bg_mask bg)) ! i ! j) (weights fl bg ! i ! j)"

definition spec_mean_of_squares ::
  "(real \<Rightarrow> real) \<Rightarrow> pyfloat grid \<Rightarrow> bool grid \<Rightarrow> nat \<Rightarrow> nat \<Rightarrow> pyfloat" where
  "spec_mean_of_squares fl x bg i j =
     r_div fl (uniform_filter fl 61 (map2g f_mul (map2g (r_mul fl) x x) (bg_mask bg)) ! i ! j)
              (weights fl bg ! i ! j)"

definition spec_radicand ::
  "(real \<Rightarrow> real) \<Rightarrow> pyfloat grid \<Rightarrow> bool grid \<Rightarrow> nat \<Rightarrow> nat \<Rightarrow> pyfloat" where
  "spec_radicand fl x bg i j =
     r_sub fl (spec_mean_of_squares fl x bg i j)
              (r_mul fl (spec_mean fl x bg i j) (spec_mean fl x bg i j))"

definition spec_stddev ::
  "(real \<Rightarrow> real) \<Rightarrow> pyfloat grid \<Rightarrow> bool grid \<Rightarrow> nat \<Rightarrow> nat \<Rightarrow> pyfloat" where
  "spec_stddev fl x bg i j = r_sqrt fl (spec_radicand fl x bg i j)"

text \<open>Three times the standard deviation, raised to the floor \<open>c\<close> when it is below it.\<close>

definition spec_threshold ::
  "(real \<Rightarrow> real) \<Rightarrow> pyfloat \<Rightarrow> pyfloat grid \<Rightarrow> bool grid \<Rightarrow> nat \<Rightarrow> nat \<Rightarrow> pyfloat" where
  "spec_threshold fl c x bg i j =
     (let scaled = r_mul fl (Finite 3) (spec_stddev fl x bg i j)
      in if f_lt scaled c then c else scaled)"

definition spec_adaptive_test ::
  "(real \<Rightarrow> real) \<Rightarrow> globals \<Rightarrow> bool grid \<Rightarrow> nat \<Rightarrow> nat \<Rightarrow> bool" where
  "spec_adaptive_test fl g bg i j =
     (f_gt (ratio75 g ! i ! j) (spec_threshold fl (Finite 0.8) (ratio75 g) bg i j) \<and>
      f_gt (band7 g ! i ! j) (spec_threshold fl (Finite 0.08) (band7 g) bg i j))"

text \<open>A pixel within 30 pixels of an edge of an \<open>h\<close> by \<open>w\<close> grid.\<close>

definition in_border :: "nat \<Rightarrow> nat \<Rightarrow> nat \<Rightarrow> nat \<Rightarrow> bool" where
  "in_border h w i j = (i < 30 \<or> h - 30 \<le> i \<or> j < 30 \<or> w - 30 \<le> j)"

text \<open>
  What an element of a masked array shows: nothing when it is masked, its data otherwise.
\<close>

definition visible :: "'a marray \<Rightarrow> nat \<Rightarrow> nat \<Rightarrow> 'a option" where
  "visible a i j = (if ma_mask a ! i ! j then None else Some (ma_data a ! i ! j))"

text \<open>The four arrays that \<open>potential_fire\<close> reads have the shape of the image.\<close>

definition fire_inputs_shaped :: "nat \<Rightarrow> nat \<Rightarrow> globals \<Rightarrow> bool" where
  "fire_inputs_shaped h w g =
     (shaped h w (ratio75 g) \<and> shaped h w (ratio76 g) \<and> shaped h w (diff75 g) \<and>
      shaped h w (band7 g))"

subsection \<open>Example images\<close>

text \<open>
  One pixel that is a DN-fold pixel and, not being unambiguous fire or water, a
  background pixel that passes the potential-fire tests.
\<close>

definition fold_and_fire :: bands where
  "fold_and_fire = pixel 0.125 0.5 0.5 0.5 0.75 0.875 1.5"

text \<open>
  One row of three pixels. The first is an unambiguous fire pixel, so it is not
  background; the other two are background pixels.
\<close>

definition three_pixels :: bands where
  "three_pixels =
     \<lparr> band1 = [[Finite 0, Finite 0, Finite 0]], band2 = [[Finite 0, Finite 0, Finite 0]],
       band3 = [[Finite 0, Finite 0, Finite 0]], band4 = [[Finite 0, Finite 0, Finite 0]],
       band5 = [[Finite 0.1, Finite 0.1, Finite 0.1]],
       band6 = [[Finite 0.2, Finite 0.2, Finite 0.2]],
       band7 = [[Finite 0.6, Finite 0.1, Finite 0.2]] \<rparr>"

text \<open>
  An image of \<open>h\<close> by \<open>w\<close> pixels that are all alike, and the 61 by 61 image whose
  pixels are all the DN-fold pixel above.
\<close>

definition constant_grid :: "nat \<Rightarrow> nat \<Rightarrow> 'a \<Rightarrow> 'a grid" where
  "constant_grid h w v = replicate h (replicate w v)"

definition uniform_image ::
  "nat \<Rightarrow> nat \<Rightarrow> real \<Rightarrow> real \<Rightarrow> real \<Rightarrow> real \<Rightarrow> real \<Rightarrow> real \<Rightarrow> real \<Rightarrow> bands" where
  "uniform_image h w b1 b2 b3 b4 b5 b6 b7 =
     \<lparr> band1 = constant_grid h w (Finite b1), band2 = constant_grid h w (Finite b2),
       band3 = constant_grid h w (Finite b3), band4 = constant_grid h w (Finite b4),
       band5 = constant_grid h w (Finite b5), band6 = constant_grid h w (Finite b6),
       band7 = constant_grid h w (Finite b7) \<rparr>"

definition fold_and_fire_image :: bands where
  "fold_and_fire_image = uniform_image 61 61 0.125 0.5 0.5 0.5 0.75 0.875 1.5"

text \<open>
  One pixel whose band7 and ratio75 are both 1.5, a value that a rounding to whole numbers
  does not keep.
\<close>

definition three_halves :: bands where
  "three_halves = pixel 0.5 0.5 0.5 0.5 1 0.5 1.5"

subsection \<open>Facts about arrays\<close>

lemma shaped_nth: "shaped h w a \<Longrightarrow> i < h \<Longrightarrow> length (a ! i) = w"
  by (simp add: shaped_def list_all_length)

lemma shaped_length: "shaped h w a \<Longrightarrow> length a = h"
  by (simp add: shaped_def)

lemma shaped_mapg: "shaped h w a \<Longrightarrow> shaped h w (mapg f a)"
  by (simp add: shaped_def mapg_def list_all_length)

lemma shaped_map2g: "shaped h w a \<Longrightarrow> shaped h w b \<Longrightarrow> shaped h w (map2g f a b)"
  by (simp add: shaped_def map2g_def list_all_length)

lemma nth_mapg:
  "shaped h w a \<Longrightarrow> i < h \<Longrightarrow> j < w \<Longrightarrow> mapg f a ! i ! j = f (a ! i ! j)"
  by (simp add: shaped_def mapg_def list_all_length)

lemma nth_map2g:
  "shaped h w a \<Longrightarrow> shaped h w b \<Longrightarrow> i < h \<Longrightarrow> j < w \<Longrightarrow>
   map2g f a b ! i ! j = f (a ! i ! j) (b ! i ! j)"
  by (simp add: shaped_def map2g_def list_all_length)

lemma derive_fields [simp]:
  "band1 (derive b) = band1 b" "band2 (derive b) = band2 b" "band3 (derive b) = band3 b"
  "band4 (derive b) = band4 b" "band5 (derive b) = band5 b" "band6 (derive b) = band6 b"
  "band7 (derive b) = band7 b"
  "ratio75 (derive b) = map2g f_div (band7 b) (band5 b)"
  "ratio76 (derive b) = map2g f_div (band7 b) (band6 b)"
  "diff17 (derive b) = map2g f_sub (band1 b) (band7 b)"
  "diff75 (derive b) = map2g f_sub (band7 b) (band5 b)"
  by (simp_all add: derive_def)

lemma shaped_np_logical_and:
  "shaped h w a \<Longrightarrow> shaped h w b \<Longrightarrow> shaped h w (np_logical_and a b)"
  by (simp add: np_logical_and_def shaped_map2g)

lemma shaped_np_logical_or:
  "shaped h w a \<Longrightarrow> shaped h w b \<Longrightarrow> shaped h w (np_logical_or a b)"
  by (simp add: np_logical_or_def shaped_map2g)

lemma shaped_np_invert: "shaped h w a \<Longrightarrow> shaped h w (np_invert a)"
  by (simp add: np_invert_def shaped_mapg)

lemma shaped_gt_scalar: "shaped h w a \<Longrightarrow> shaped h w (gt_scalar a c)"
  by (simp add: gt_scalar_def shaped_mapg)

lemma shaped_lt_scalar: "shaped h w a \<Longrightarrow> shaped h w (lt_scalar a c)"
  by (simp add: lt_scalar_def shaped_mapg)

lemma shaped_gt_array: "shaped h w a \<Longrightarrow> shaped h w b \<Longrightarrow> shaped h w (gt_array a b)"
  by (simp add: gt_array_def shaped_map2g)

lemmas shaped_ops =
  shaped_mapg shaped_map2g shaped_np_logical_and shaped_np_logical_or shaped_np_invert
  shaped_gt_scalar shaped_lt_scalar shaped_gt_array

lemma nth_np_logical_and:
  "shaped h w a \<Longrightarrow> shaped h w b \<Longrightarrow> i < h \<Longrightarrow> j < w \<Longrightarrow>
   np_logical_and a b ! i ! j = (a ! i ! j \<and> b ! i ! j)"
  by (simp add: np_logical_and_def nth_map2g)

lemma nth_np_logical_or:
  "shaped h w a \<Longrightarrow> shaped h w b \<Longrightarrow> i < h \<Longrightarrow> j < w \<Longrightarrow>
   np_logical_or a b ! i ! j = (a ! i ! j \<or> b ! i ! j)"
  by (simp add: np_logical_or_def nth_map2g)

lemma nth_np_invert:
  "shaped h w a \<Longrightarrow> i < h \<Longrightarrow> j < w \<Longrightarrow> np_invert a ! i ! j = (\<not> a ! i ! j)"
  by (simp add: np_invert_def nth_mapg)

lemma nth_gt_scalar:
  "shaped h w a \<Longrightarrow> i < h \<Longrightarrow> j < w \<Longrightarrow> gt_scalar a c ! i ! j = f_gt (a ! i ! j) c"
  by (simp add: gt_scalar_def nth_mapg)

lemma nth_lt_scalar:
  "shaped h w a \<Longrightarrow> i < h \<Longrightarrow> j < w \<Longrightarrow> lt_scalar a c ! i ! j = f_lt (a ! i ! j) c"
  by (simp add: lt_scalar_def nth_mapg)

lemma nth_gt_array:
  "shaped h w a \<Longrightarrow> shaped h w b \<Longrightarrow> i < h \<Longrightarrow> j < w \<Longrightarrow>
   gt_array a b ! i ! j = f_gt (a ! i ! j) (b ! i ! j)"
  by (simp add: gt_array_def nth_map2g)

lemmas nth_ops =
  nth_mapg nth_map2g nth_np_logical_and nth_np_logical_or nth_np_invert
  nth_gt_scalar nth_lt_scalar nth_gt_array


lemma shaped_derive:
  assumes "bands_shaped h w b"
  shows "shaped h w (ratio75 (derive b))" "shaped h w (ratio76 (derive b))"
    "shaped h w (diff17 (derive b))" "shaped h w (diff75 (derive b))"
    "bands_shaped h w (derive b)"
  using assms by (simp_all add: bands_shaped_def shaped_map2g)

lemma bands_shaped_pixel: "bands_shaped (Suc 0) (Suc 0) (pixel b1 b2 b3 b4 b5 b6 b7)"
  by (simp add: bands_shaped_def pixel_def shaped_def)

lemmas grid_eval =
  mapg_def map2g_def np_logical_and_def np_logical_or_def np_invert_def
  gt_scalar_def lt_scalar_def gt_array_def f_sub_def f_lt_def f_le_def

lemma derive_pixel:
  "derive (pixel b1 b2 b3 b4 b5 b6 b7) =
     \<lparr> band1 = [[Finite b1]], band2 = [[Finite b2]], band3 = [[Finite b3]],
       band4 = [[Finite b4]], band5 = [[Finite b5]], band6 = [[Finite b6]],
       band7 = [[Finite b7]],
       ratio75 = [[f_div (Finite b7) (Finite b5)]],
       ratio76 = [[f_div (Finite b7) (Finite b6)]],
       diff17 = [[Finite (b1 - b7)]],
       diff75 = [[Finite (b7 - b5)]] \<rparr>"
  by (simp add: derive_def pixel_def map2g_def f_sub_def)

subsection \<open>The detectors, element by element\<close>

lemma unambiguous_fire_nth:
  assumes "shaped h w (ratio75 g)" "shaped h w (diff75 g)" "shaped h w (band7 g)" "i < h" "j < w"
  shows "unambiguous_fire g ! i ! j =
    (f_gt (ratio75 g ! i ! j) (Finite 2.5) \<and> f_gt (diff75 g ! i ! j) (Finite 0.3) \<and>
     f_gt (band7 g ! i ! j) (Finite 0.5))"
  using assms by (simp add: unambiguous_fire_def Let_def nth_ops[where h=h and w=w] shaped_ops)

lemma dn_fold_nth:
  assumes "shaped h w (band1 g)" "shaped h w (band5 g)" "shaped h w (band6 g)"
    "shaped h w (band7 g)" "i < h" "j < w"
  shows "dn_fold g ! i ! j =
    ((f_gt (band6 g ! i ! j) (Finite 0.8) \<and> f_lt (band1 g ! i ! j) (Finite 0.2)) \<and>
     (f_gt (band5 g ! i ! j) (Finite 0.4) \<or> f_lt (band7 g ! i ! j) (Finite 0.1)))"
  using assms by (simp add: dn_fold_def Let_def nth_ops[where h=h and w=w] shaped_ops)

lemma water_pixels_nth:
  assumes "bands_shaped h w g" "shaped h w (diff17 g)" "i < h" "j < w"
  shows "water_pixels g ! i ! j =
    (((f_gt (band4 g ! i ! j) (band5 g ! i ! j) \<and> f_gt (band5 g ! i ! j) (band6 g ! i ! j)) \<and>
      (f_gt (band6 g ! i ! j) (band7 g ! i ! j) \<and> f_lt (diff17 g ! i ! j) (Finite 0.2))) \<and>
     (f_gt (band3 g ! i ! j) (band2 g ! i ! j) \<or>
      ((f_gt (band1 g ! i ! j) (band2 g ! i ! j) \<and> f_gt (band2 g ! i ! j) (band3 g ! i ! j)) \<and>
       f_gt (band3 g ! i ! j) (band4 g ! i ! j))))"
  using assms
  by (simp add: water_pixels_def Let_def bands_shaped_def nth_ops[where h=h and w=w] shaped_ops)

lemma background_nth:
  assumes "shaped h w u" "shaped h w wa" "shaped h w (band7 g)" "i < h" "j < w"
  shows "background g u wa ! i ! j =
    (\<not> (u ! i ! j \<or> wa ! i ! j) \<and> f_gt (band7 g ! i ! j) (Finite 0))"
  using assms by (simp add: background_def Let_def nth_ops[where h=h and w=w] shaped_ops)

lemma shaped_detectors:
  assumes "bands_shaped h w g" "shaped h w (ratio75 g)" "shaped h w (diff75 g)"
    "shaped h w (diff17 g)"
  shows "shaped h w (unambiguous_fire g)" "shaped h w (dn_fold g)" "shaped h w (water_pixels g)"
  using assms
  by (simp_all add: unambiguous_fire_def dn_fold_def water_pixels_def Let_def bands_shaped_def
      shaped_ops)

lemma shaped_background:
  "shaped h w u \<Longrightarrow> shaped h w wa \<Longrightarrow> shaped h w (band7 g) \<Longrightarrow> shaped h w (background g u wa)"
  by (simp add: background_def Let_def shaped_ops)

lemma water_base_diff75:
  "f_gt b5 b6 \<Longrightarrow> f_gt b6 b7 \<Longrightarrow> f_lt (f_sub b7 b5) (Finite 0) \<and> \<not> f_gt (f_sub b7 b5) (Finite 0.3)"
  by (cases b5; cases b6; cases b7) (auto simp: f_sub_def f_lt_def)

subsection \<open>The shape check\<close>

lemma shape_test_of_tuple:
  "shape_test_of (PyTuple (x # xs)) = Inl TypeError"
  by (simp add: shape_test_of_def bind_def)

lemma check_shapes_type_error: "check_shapes b = Inl TypeError"
  by (simp add: check_shapes_def Let_def shape_test_of_tuple bind_def)

subsection \<open>Rounding\<close>

lemma rnd_simps [simp]:
  "rnd fl (Finite a) = Finite (if a = 0 then 0 else fl a)"
  "rnd fl PosInf = PosInf" "rnd fl NegInf = NegInf" "rnd fl NaN = NaN"
  by (simp_all add: rnd_def)

lemma rnd_unrounded [simp]: "rnd unrounded x = x"
  by (cases x) (simp_all add: unrounded_def)

lemma unrounded_ops [simp]:
  "r_add unrounded x y = f_add x y" "r_sub unrounded x y = f_sub x y"
  "r_mul unrounded x y = f_mul x y" "r_div unrounded x y = f_div x y"
  "r_sqrt unrounded x = f_sqrt x"
  by (simp_all add: r_add_def r_sub_def r_mul_def r_div_def r_sqrt_def)

lemma rnd_NaN_iff: "rnd fl x = NaN \<longleftrightarrow> x = NaN"
  by (cases x) simp_all

lemma is_finite_rnd: "is_finite (rnd fl x) = is_finite x"
  by (cases x) (simp_all add: is_finite_def)

lemma exact_multiples_iff:
  "exact_multiples fl n v = (\<forall>k. k \<le> n \<longrightarrow> fl (real k * v) = real k * v)"
  by (auto simp: exact_multiples_def)

lemma exact_on_quarters_iff:
  "exact_on_quarters fl = (\<forall>n. n \<le> 1000 \<longrightarrow> fl (real n / 4) = real n / 4)"
  by (auto simp: exact_on_quarters_def)

lemma exact_multiples_unrounded: "exact_multiples unrounded n v"
  by (simp add: exact_multiples_iff unrounded_def)

lemma exact_on_quarters_unrounded: "exact_on_quarters unrounded"
  by (simp add: exact_on_quarters_iff unrounded_def)

lemma exact_on_quarters_multiples:
  assumes "exact_on_quarters fl" "n * c \<le> 1000"
  shows "exact_multiples fl n (real c / 4)"
  unfolding exact_multiples_iff
proof (intro allI impI)
  fix k assume "k \<le> n"
  then have "k * c \<le> 1000"
    using assms(2) by (meson le_trans mult_le_mono1)
  then have e: "fl (real (k * c) / 4) = real (k * c) / 4"
    using assms(1) unfolding exact_on_quarters_iff by blast
  have m: "real k * (real c / 4) = real (k * c) / 4"
    by simp
  show "fl (real k * (real c / 4)) = real k * (real c / 4)"
    unfolding m by (rule e)
qed

subsection \<open>The filter on a window of one value\<close>

lemma reflect_index_one: "reflect_index (Suc 0) k = 0"
  by (simp add: reflect_index_def Let_def)

lemma length_window: "length (window n i) = n"
  by (simp add: window_def)

lemma foldl_r_add_const:
  assumes "exact_multiples fl n v"
  shows "m + length ks \<le> n \<Longrightarrow>
    foldl (r_add fl) (Finite (real m * v)) (map (\<lambda>k. Finite v) ks)
      = Finite (real (m + length ks) * v)"
proof (induction ks arbitrary: m)
  case Nil
  then show ?case by simp
next
  case (Cons k ks)
  have "Suc m \<le> n"
    using Cons.prems by simp
  then have e: "fl (real (Suc m) * v) = real (Suc m) * v"
    using assms unfolding exact_multiples_iff by blast
  have s: "real m * v + v = real (Suc m) * v"
    by (simp add: algebra_simps)
  have "r_add fl (Finite (real m * v)) (Finite v) = Finite (real (Suc m) * v)"
    unfolding r_add_def f_add.simps rnd_simps s using e by simp
  then show ?case
    using Cons.IH [of "Suc m"] Cons.prems by simp
qed

lemma f_mean_const:
  assumes "0 < n" "exact_multiples fl n v"
  shows "f_mean fl n (map (\<lambda>k. Finite v) (window n i)) = Finite v"
proof -
  have "f_sum fl (map (\<lambda>k. Finite v) (window n i)) = Finite (real n * v)"
    using foldl_r_add_const [OF assms(2), of 0 "window n i"]
    by (simp add: f_sum_def length_window)
  moreover have "fl v = v"
  proof -
    have "(1::nat) \<le> n"
      using assms(1) by simp
    then have "fl (real (1::nat) * v) = real (1::nat) * v"
      using assms(2) unfolding exact_multiples_iff by blast
    then show ?thesis by simp
  qed
  ultimately show ?thesis
    using assms(1) by (simp add: f_mean_def r_div_def)
qed

lemma uniform_filter_one_pixel:
  "0 < n \<Longrightarrow> exact_multiples fl n x \<Longrightarrow> uniform_filter fl n [[Finite x]] = [[Finite x]]"
  by (simp add: uniform_filter_def filter_axis0_def filter_axis1_def uniform_filter1d_def
      reflect_index_one f_mean_const)

subsection \<open>The window statistics, element by element\<close>

lemma grid_ext:
  assumes "shaped h w a" "shaped h w b"
    and "\<And>i j. i < h \<Longrightarrow> j < w \<Longrightarrow> a ! i ! j = b ! i ! j"
  shows "a = b"
proof (rule nth_equalityI)
  show "length a = length b"
    using assms(1,2) by (simp add: shaped_def)
next
  fix i assume i: "i < length a"
  then have ih: "i < h"
    using assms(1) by (simp add: shaped_def)
  show "a ! i = b ! i"
  proof (rule nth_equalityI)
    show "length (a ! i) = length (b ! i)"
      using assms(1,2) ih by (simp add: shaped_nth)
  next
    fix j assume "j < length (a ! i)"
    then have "j < w"
      using assms(1) ih by (simp add: shaped_nth)
    then show "a ! i ! j = b ! i ! j"
      using assms(3) ih by simp
  qed
qed

lemma shaped_filter_axis0: "shaped h w a \<Longrightarrow> shaped h w (filter_axis0 fl n a)"
  by (simp add: shaped_def filter_axis0_def list_all_length)

lemma shaped_filter_axis1: "shaped h w a \<Longrightarrow> shaped h w (filter_axis1 fl n a)"
  by (simp add: shaped_def filter_axis1_def uniform_filter1d_def list_all_length)

lemma shaped_uniform_filter: "shaped h w a \<Longrightarrow> shaped h w (uniform_filter fl n a)"
  by (simp add: uniform_filter_def shaped_filter_axis0 shaped_filter_axis1)

lemma shaped_bg_mask: "shaped h w bg \<Longrightarrow> shaped h w (bg_mask bg)"
  by (simp add: bg_mask_def shaped_mapg)

lemma shaped_weights: "shaped h w bg \<Longrightarrow> shaped h w (weights fl bg)"
  by (simp add: weights_def shaped_uniform_filter shaped_bg_mask)

lemma nth_bg_mask:
  "shaped h w bg \<Longrightarrow> i < h \<Longrightarrow> j < w \<Longrightarrow>
   bg_mask bg ! i ! j = Finite (if bg ! i ! j then 1 else 0)"
  by (simp add: bg_mask_def nth_mapg [where h = h and w = w])

lemma f_mul_commute: "f_mul x y = f_mul y x"
  by (cases x; cases y) (simp_all add: mult.commute)

lemma r_mul_commute: "r_mul fl x y = r_mul fl y x"
  by (simp add: r_mul_def f_mul_commute [of x y])

text \<open>
  Squaring the masked value is masking the squared value: the product with the mask's 1
  or 0 is exact, and zero stays zero.
\<close>

lemma r_mul_indicator:
  "r_mul fl (f_mul v (Finite (if b then 1 else 0))) (f_mul v (Finite (if b then 1 else 0)))
     = f_mul (r_mul fl v v) (Finite (if b then 1 else 0))"
  by (cases v; cases b) (simp_all add: r_mul_def signed_inf_def)

lemma masked_square:
  assumes "shaped h w x" "shaped h w bg"
  shows "map2g (r_mul fl) (map2g f_mul x (bg_mask bg)) (map2g f_mul x (bg_mask bg))
           = map2g f_mul (map2g (r_mul fl) x x) (bg_mask bg)"
proof (rule grid_ext [of h w])
  show "shaped h w (map2g (r_mul fl) (map2g f_mul x (bg_mask bg)) (map2g f_mul x (bg_mask bg)))"
    using assms by (simp add: shaped_map2g shaped_bg_mask)
  show "shaped h w (map2g f_mul (map2g (r_mul fl) x x) (bg_mask bg))"
    using assms by (simp add: shaped_map2g shaped_bg_mask)
next
  fix i j assume "i < h" "j < w"
  then show "map2g (r_mul fl) (map2g f_mul x (bg_mask bg)) (map2g f_mul x (bg_mask bg)) ! i ! j
      = map2g f_mul (map2g (r_mul fl) x x) (bg_mask bg) ! i ! j"
    using assms
    by (simp add: nth_map2g [where h = h and w = w] nth_mapg [where h = h and w = w]
        shaped_map2g shaped_bg_mask
        nth_bg_mask [where h = h and w = w] r_mul_indicator)
qed


lemma shaped_masked_inputs:
  assumes "fire_inputs_shaped h w g" "shaped h w bg"
  shows "shaped h w (mask_band7 g bg)" "shaped h w (mask_ratio75 g bg)"
  using assms
  by (simp_all add: fire_inputs_shaped_def mask_band7_def mask_ratio75_def shaped_map2g
      shaped_bg_mask)

lemma shaped_statistics:
  assumes "fire_inputs_shaped h w g" "shaped h w bg"
  shows "shaped h w (b7_means fl g bg)" "shaped h w (ratio75_means fl g bg)"
    "shaped h w (b7_squares fl g bg)" "shaped h w (ratio75_squares fl g bg)"
  using shaped_masked_inputs [OF assms] assms(2)
  by (simp_all add: b7_means_def ratio75_means_def b7_squares_def ratio75_squares_def
      shaped_map2g shaped_uniform_filter shaped_weights)

lemma shaped_stddev:
  assumes "fire_inputs_shaped h w g" "shaped h w bg"
  shows "shaped h w (b7_stddev fl g bg)" "shaped h w (ratio75_stddev fl g bg)"
  using shaped_statistics [OF assms]
  by (simp_all add: b7_stddev_def ratio75_stddev_def assign_below_def times3_def shaped_map2g
      shaped_mapg)

lemma b7_means_nth:
  assumes "fire_inputs_shaped h w g" "shaped h w bg" "i < h" "j < w"
  shows "b7_means fl g bg ! i ! j = spec_mean fl (band7 g) bg i j"
  using assms shaped_masked_inputs [OF assms(1,2)]
  by (simp add: b7_means_def spec_mean_def mask_band7_def nth_map2g [where h = h and w = w]
      shaped_uniform_filter shaped_weights)

lemma ratio75_means_nth:
  assumes "fire_inputs_shaped h w g" "shaped h w bg" "i < h" "j < w"
  shows "ratio75_means fl g bg ! i ! j = spec_mean fl (ratio75 g) bg i j"
  using assms shaped_masked_inputs [OF assms(1,2)]
  by (simp add: ratio75_means_def spec_mean_def mask_ratio75_def nth_map2g [where h = h and w = w]
      shaped_uniform_filter shaped_weights)

lemma b7_squares_nth:
  assumes "fire_inputs_shaped h w g" "shaped h w bg" "i < h" "j < w"
  shows "b7_squares fl g bg ! i ! j = spec_mean_of_squares fl (band7 g) bg i j"
proof -
  have b: "shaped h w (band7 g)"
    using assms(1) by (simp add: fire_inputs_shaped_def)
  have "shaped h w (map2g f_mul (map2g (r_mul fl) (band7 g) (band7 g)) (bg_mask bg))"
    using b assms(2) by (simp add: shaped_map2g shaped_bg_mask)
  then show ?thesis
    using assms
    by (simp add: b7_squares_def spec_mean_of_squares_def mask_band7_def
        masked_square [OF b assms(2)] nth_map2g [where h = h and w = w]
        shaped_uniform_filter shaped_weights)
qed

lemma ratio75_squares_nth:
  assumes "fire_inputs_shaped h w g" "shaped h w bg" "i < h" "j < w"
  shows "ratio75_squares fl g bg ! i ! j = spec_mean_of_squares fl (ratio75 g) bg i j"
proof -
  have b: "shaped h w (ratio75 g)"
    using assms(1) by (simp add: fire_inputs_shaped_def)
  have "shaped h w (map2g f_mul (map2g (r_mul fl) (ratio75 g) (ratio75 g)) (bg_mask bg))"
    using b assms(2) by (simp add: shaped_map2g shaped_bg_mask)
  then show ?thesis
    using assms
    by (simp add: ratio75_squares_def spec_mean_of_squares_def mask_ratio75_def
        masked_square [OF b assms(2)] nth_map2g [where h = h and w = w]
        shaped_uniform_filter shaped_weights)
qed

lemma b7_stddev_nth:
  assumes "fire_inputs_shaped h w g" "shaped h w bg" "i < h" "j < w"
  shows "b7_stddev fl g bg ! i ! j = spec_threshold fl (Finite 0.08) (band7 g) bg i j"
  using assms shaped_statistics [OF assms(1,2)]
  by (simp add: b7_stddev_def assign_below_def times3_def spec_threshold_def spec_stddev_def
      spec_radicand_def Let_def nth_mapg [where h = h and w = w] nth_map2g [where h = h and w = w]
      shaped_map2g shaped_mapg b7_means_nth [where h = h and w = w]
      b7_squares_nth [where h = h and w = w] r_mul_commute [of _ _ "Finite 3"])

lemma ratio75_stddev_nth:
  assumes "fire_inputs_shaped h w g" "shaped h w bg" "i < h" "j < w"
  shows "ratio75_stddev fl g bg ! i ! j = spec_threshold fl (Finite 0.8) (ratio75 g) bg i j"
  using assms shaped_statistics [OF assms(1,2)]
  by (simp add: ratio75_stddev_def assign_below_def times3_def spec_threshold_def spec_stddev_def
      spec_radicand_def Let_def nth_mapg [where h = h and w = w] nth_map2g [where h = h and w = w]
      shaped_map2g shaped_mapg ratio75_means_nth [where h = h and w = w]
      ratio75_squares_nth [where h = h and w = w] r_mul_commute [of _ _ "Finite 3"])


subsection \<open>The potential-fire tests, element by element\<close>

lemma shaped_bg_inv: "shaped h w bg \<Longrightarrow> shaped h w (bg_inv bg)"
  by (simp add: bg_inv_def shaped_np_invert)

lemma nth_bg_inv:
  "shaped h w bg \<Longrightarrow> i < h \<Longrightarrow> j < w \<Longrightarrow> bg_inv bg ! i ! j = (\<not> bg ! i ! j)"
  by (simp add: bg_inv_def nth_np_invert [where h = h and w = w])

lemmas masked_inputs =
  ma_ratio75_def ma_ratio76_def ma_diff75_def ma_band7_def masked_array_def
  ma_gt_scalar_def ma_gt_array_def ma_logical_and_def

lemma shaped_potential_test_3:
  assumes "fire_inputs_shaped h w g" "shaped h w bg"
  shows "shaped h w (ma_data (potential_test_3 g bg))" "shaped h w (ma_mask (potential_test_3 g bg))"
  using assms
  by (simp_all add: potential_test_3_def potential_test_2_def potential_test_1_def masked_inputs
      fire_inputs_shaped_def shaped_ops shaped_bg_inv)

lemma shaped_potential_test_4:
  assumes "fire_inputs_shaped h w g" "shaped h w bg"
  shows "shaped h w (ma_data (potential_test_4 fl g bg))" "shaped h w (ma_mask (potential_test_4 fl g bg))"
  using assms shaped_stddev [OF assms]
  by (simp_all add: potential_test_4_def masked_inputs fire_inputs_shaped_def shaped_ops
      shaped_bg_inv)

lemma potential_test_3_nth:
  assumes "fire_inputs_shaped h w g" "shaped h w bg" "i < h" "j < w"
  shows "ma_data (potential_test_3 g bg) ! i ! j = spec_direct_test g i j"
    and "ma_mask (potential_test_3 g bg) ! i ! j = (\<not> bg ! i ! j)"
  using assms
  by (simp_all add: potential_test_3_def potential_test_2_def potential_test_1_def masked_inputs
      fire_inputs_shaped_def spec_direct_test_def nth_ops [where h = h and w = w] shaped_ops
      shaped_bg_inv nth_bg_inv [where h = h and w = w])

lemma potential_test_4_nth:
  assumes "fire_inputs_shaped h w g" "shaped h w bg" "i < h" "j < w"
  shows "ma_data (potential_test_4 fl g bg) ! i ! j = spec_adaptive_test fl g bg i j"
    and "ma_mask (potential_test_4 fl g bg) ! i ! j = (\<not> bg ! i ! j)"
  using assms shaped_stddev [OF assms(1,2)]
  by (simp_all add: potential_test_4_def masked_inputs fire_inputs_shaped_def
      spec_adaptive_test_def nth_ops [where h = h and w = w] shaped_ops shaped_bg_inv
      nth_bg_inv [where h = h and w = w] b7_stddev_nth [where h = h and w = w]
      ratio75_stddev_nth [where h = h and w = w])

lemma potential_array_nth:
  assumes "fire_inputs_shaped h w g" "shaped h w bg" "i < h" "j < w"
  shows "ma_data (potential_fire fl g bg False) ! i ! j
           = (spec_direct_test g i j \<and> spec_adaptive_test fl g bg i j)"
    and "ma_mask (potential_fire fl g bg False) ! i ! j = (\<not> bg ! i ! j)"
  using assms shaped_potential_test_3 [OF assms(1,2)] shaped_potential_test_4 [OF assms(1,2)]
  by (simp_all add: potential_fire_def Let_def ma_logical_and_def
      nth_ops [where h = h and w = w] potential_test_3_nth [where h = h and w = w]
      potential_test_4_nth [where h = h and w = w])

lemma shaped_potential_array:
  assumes "fire_inputs_shaped h w g" "shaped h w bg"
  shows "shaped h w (ma_data (potential_fire fl g bg False))"
    and "shaped h w (ma_mask (potential_fire fl g bg False))"
  using shaped_potential_test_3 [OF assms] shaped_potential_test_4 [OF assms]
  by (simp_all add: potential_fire_def Let_def ma_logical_and_def shaped_ops)

text \<open>Slice assignment, element by element.\<close>

lemma shaped_assign_rows: "shaped h w a \<Longrightarrow> shaped h w (assign_rows lo hi v a)"
  by (simp add: shaped_def assign_rows_def list_all_length nth_enumerate_eq)

lemma nth_assign_rows:
  "shaped h w a \<Longrightarrow> i < h \<Longrightarrow> j < w \<Longrightarrow>
   assign_rows lo hi v a ! i ! j = (if lo \<le> i \<and> i < hi then v else a ! i ! j)"
  by (simp add: shaped_def assign_rows_def list_all_length nth_enumerate_eq)

lemma length_assign_cols: "length (assign_cols lo hi v row) = length row"
  by (simp add: assign_cols_def)

lemma nth_assign_cols:
  "j < length row \<Longrightarrow>
   assign_cols lo hi v row ! j = (if lo \<le> j \<and> j < hi then v else row ! j)"
  by (simp add: assign_cols_def nth_enumerate_eq)

lemma shaped_assign_edges:
  assumes "shaped h w a"
  shows "shaped h w (assign_first_rows n v a)" "shaped h w (assign_last_rows n v a)"
    "shaped h w (assign_first_cols n v a)" "shaped h w (assign_last_cols n v a)"
  using assms
  by (simp_all add: assign_first_rows_def assign_last_rows_def assign_first_cols_def
      assign_last_cols_def shaped_assign_rows)
    (simp_all add: shaped_def list_all_length length_assign_cols)

lemma nth_assign_edges:
  assumes "shaped h w a" "i < h" "j < w"
  shows "assign_first_rows n v a ! i ! j = (if i < n then v else a ! i ! j)"
    "assign_last_rows n v a ! i ! j = (if h - n \<le> i then v else a ! i ! j)"
    "assign_first_cols n v a ! i ! j = (if j < n then v else a ! i ! j)"
    "assign_last_cols n v a ! i ! j = (if w - n \<le> j then v else a ! i ! j)"
  using assms
  by (simp_all add: assign_first_rows_def assign_last_rows_def assign_first_cols_def
      assign_last_cols_def nth_assign_rows [where h = h and w = w] shaped_length [of h w a]
      shaped_nth [of h w a] nth_assign_cols)

lemma mask_the_edges_nth:
  assumes "shaped h w (ma_data a)" "shaped h w (ma_mask a)" "i < h" "j < w"
  shows "ma_data (mask_the_edges a) ! i ! j = (if in_border h w i j then False else ma_data a ! i ! j)"
    and "ma_mask (mask_the_edges a) ! i ! j = (if in_border h w i j then False else ma_mask a ! i ! j)"
  using assms
  by (auto simp: mask_the_edges_def ma_assign_def in_border_def
      nth_assign_edges [where h = h and w = w] shaped_assign_edges)

lemma shaped_mask_the_edges:
  assumes "shaped h w (ma_data a)" "shaped h w (ma_mask a)"
  shows "shaped h w (ma_data (mask_the_edges a))" "shaped h w (ma_mask (mask_the_edges a))"
  using assms by (simp_all add: mask_the_edges_def ma_assign_def shaped_assign_edges)

lemma potential_fire_edges:
  "potential_fire fl g bg True = mask_the_edges (potential_fire fl g bg False)"
  by (simp add: potential_fire_def Let_def)

lemma shaped_potential_fire:
  assumes "fire_inputs_shaped h w g" "shaped h w bg"
  shows "shaped h w (ma_data (potential_fire fl g bg e))"
    and "shaped h w (ma_mask (potential_fire fl g bg e))"
  using shaped_potential_array [OF assms]
  by (cases e; simp add: potential_fire_edges shaped_mask_the_edges)+

lemma potential_fire_nth:
  assumes "fire_inputs_shaped h w g" "shaped h w bg" "i < h" "j < w"
  shows "ma_data (potential_fire fl g bg e) ! i ! j
           = (\<not> (e \<and> in_border h w i j) \<and> spec_direct_test g i j \<and> spec_adaptive_test fl g bg i j)"
    and "ma_mask (potential_fire fl g bg e) ! i ! j = (\<not> (e \<and> in_border h w i j) \<and> \<not> bg ! i ! j)"
  using assms shaped_potential_array [OF assms(1,2)] potential_array_nth [OF assms]
  by (cases e; simp add: potential_fire_edges mask_the_edges_nth [where h = h and w = w])+

subsection \<open>The row of three pixels\<close>

lemma window_61_0:
  "map (reflect_index 3) (window 61 0) =
    [0,1,2,2,1,0, 0,1,2,2,1,0, 0,1,2,2,1,0, 0,1,2,2,1,0, 0,1,2,2,1,0,
     0,1,2,2,1,0, 0,1,2,2,1,0, 0,1,2,2,1,0, 0,1,2,2,1,0, 0,1,2,2,1,0, 0]"
  by code_simp

lemma uniform_filter1d_three:
  "uniform_filter1d unrounded 61 [Finite a, Finite b, Finite c] ! 0
     = Finite ((21 * a + 20 * b + 20 * c) / 61)"
proof -
  let ?xs = "[Finite a, Finite b, Finite c]"
  have "uniform_filter1d unrounded 61 ?xs ! 0
      = f_mean unrounded 61 (map ((!) ?xs) (map (reflect_index 3) (window 61 0)))"
    by (simp add: uniform_filter1d_def numeral_3_eq_3 comp_def)
  also have "\<dots> = Finite ((21 * a + 20 * b + 20 * c) / 61)"
    unfolding window_61_0 by (simp add: f_mean_def f_sum_def)
  finally show ?thesis .
qed


lemma filter_axis0_three:
  "filter_axis0 unrounded 61 [[Finite a, Finite b, Finite c]] = [[Finite a, Finite b, Finite c]]"
  by (simp add: filter_axis0_def reflect_index_one f_mean_const exact_multiples_unrounded upt_rec)

lemma uniform_filter_three:
  "uniform_filter unrounded 61 [[Finite a, Finite b, Finite c]] ! 0 ! 0
     = Finite ((21 * a + 20 * b + 20 * c) / 61)"
  by (simp add: uniform_filter_def filter_axis0_three filter_axis1_def uniform_filter1d_three)

lemma derive_three_pixels:
  "derive three_pixels =
     \<lparr> band1 = [[Finite 0, Finite 0, Finite 0]], band2 = [[Finite 0, Finite 0, Finite 0]],
       band3 = [[Finite 0, Finite 0, Finite 0]], band4 = [[Finite 0, Finite 0, Finite 0]],
       band5 = [[Finite 0.1, Finite 0.1, Finite 0.1]],
       band6 = [[Finite 0.2, Finite 0.2, Finite 0.2]],
       band7 = [[Finite 0.6, Finite 0.1, Finite 0.2]],
       ratio75 = [[Finite 6, Finite 1, Finite 2]],
       ratio76 = [[Finite 3, Finite 0.5, Finite 1]],
       diff17 = [[Finite (- 0.6), Finite (- 0.1), Finite (- 0.2)]],
       diff75 = [[Finite 0.5, Finite 0, Finite 0.1]] \<rparr>"
  by (simp add: derive_def three_pixels_def map2g_def f_sub_def)

lemma three_pixels_masks:
  "unambiguous_fire (derive three_pixels) = [[True, False, False]]"
  "dn_fold (derive three_pixels) = [[False, False, False]]"
  "water_pixels (derive three_pixels) = [[False, False, False]]"
  "background (derive three_pixels) [[True, False, False]] [[False, False, False]]
     = [[False, True, True]]"
  by (simp_all add: derive_three_pixels unambiguous_fire_def dn_fold_def water_pixels_def
      background_def Let_def grid_eval)

lemma three_pixels_shaped:
  "fire_inputs_shaped 1 3 (derive three_pixels)" "shaped 1 3 [[False, True, True]]"
  "shaped 1 3 [[False, False, False]]" "shaped 1 3 [[True, False, False]]"
  by (simp_all add: derive_three_pixels fire_inputs_shaped_def shaped_def)

lemma sqrt_examples: "sqrt (1 / 400) = 1 / 20" "sqrt (1 / 4) = 1 / 2"
  by (rule real_sqrt_unique; simp add: power2_eq_square)+

lemma three_pixels_tests:
  "spec_direct_test (derive three_pixels) 0 0"
  "spec_threshold unrounded (Finite 0.08) (band7 (derive three_pixels)) [[False, True, True]] 0 0
     = Finite 0.15"
  "spec_threshold unrounded (Finite 0.8) (ratio75 (derive three_pixels)) [[False, True, True]] 0 0
     = Finite 1.5"
  by (simp_all add: derive_three_pixels spec_direct_test_def spec_threshold_def spec_stddev_def
      spec_radicand_def spec_mean_def spec_mean_of_squares_def weights_def bg_mask_def mapg_def map2g_def
      uniform_filter_three f_sub_def f_lt_def Let_def sqrt_examples)

lemma three_pixels_adaptive:
  "spec_adaptive_test unrounded (derive three_pixels) [[False, True, True]] 0 0"
  unfolding spec_adaptive_test_def three_pixels_tests
  by (simp add: derive_three_pixels)


text \<open>A zero weight.\<close>

lemma r_div_zero_not_finite: "\<not> is_finite (r_div fl a (Finite 0))"
  by (cases a) (simp_all add: r_div_def is_finite_def signed_inf_def)

lemma radicand_zero_weight:
  "r_sqrt fl (r_sub fl (r_div fl b (Finite 0))
                       (r_mul fl (r_div fl a (Finite 0)) (r_div fl a (Finite 0)))) = NaN"
  by (cases a; cases b)
    (simp_all add: r_sqrt_def r_sub_def r_mul_def r_div_def f_sub_def signed_inf_def)

lemma r_mul_NaN [simp]: "r_mul fl x NaN = NaN" "r_mul fl NaN y = NaN"
  by (cases x) (simp_all add: r_mul_def)

lemma spec_threshold_zero_weight:
  "weights fl bg ! i ! j = Finite 0 \<Longrightarrow> spec_threshold fl c x bg i j = NaN"
  by (simp add: spec_threshold_def spec_stddev_def spec_radicand_def spec_mean_def
      spec_mean_of_squares_def radicand_zero_weight f_lt_def Let_def)

text \<open>A negative difference under the root.\<close>

lemma r_sqrt_negative: "f_lt r (Finite 0) \<Longrightarrow> r_sqrt fl r = NaN"
  by (cases r) (simp_all add: r_sqrt_def f_lt_def)

lemma spec_threshold_negative:
  "f_lt (spec_radicand fl x bg i j) (Finite 0) \<Longrightarrow> spec_threshold fl c x bg i j = NaN"
  by (simp add: spec_threshold_def spec_stddev_def r_sqrt_negative f_lt_def Let_def)

lemma spec_threshold_floor: "\<not> f_lt (spec_threshold fl (Finite c) x bg i j) (Finite c)"
  by (simp add: spec_threshold_def Let_def f_lt_def)

lemma f_gt_NaN: "\<not> f_gt v NaN"
  by (cases v) simp_all

text \<open>The classified array, element by element.\<close>

lemma shaped_astype_uint8: "shaped h w a \<Longrightarrow> shaped h w (astype_uint8 a)"
  by (simp add: astype_uint8_def shaped_mapg)

lemma nth_astype_uint8:
  "shaped h w a \<Longrightarrow> i < h \<Longrightarrow> j < w \<Longrightarrow> astype_uint8 a ! i ! j = (if a ! i ! j then 1 else 0)"
  by (simp add: astype_uint8_def nth_mapg [where h = h and w = w])

lemma make_classified_array_nth:
  assumes "shaped h w dn" "shaped h w un" "shaped h w (ma_data p)" "shaped h w (ma_mask p)"
    "i < h" "j < w"
  shows "make_classified_array dn un p ! i ! j =
           (if dn ! i ! j then 1 else 0) + (if un ! i ! j then 2 else 0) +
           (if \<not> ma_mask p ! i ! j \<and> ma_data p ! i ! j then 3 else 0)"
  using assms
  by (simp add: make_classified_array_def Let_def ma_radd_def ma_mul_scalar_def
      ma_astype_uint8_def nth_map2g [where h = h and w = w] nth_mapg [where h = h and w = w]
      nth_astype_uint8 [where h = h and w = w] shaped_map2g shaped_mapg shaped_astype_uint8)

subsection \<open>Images of one value\<close>

lemma shaped_constant_grid: "shaped h w (constant_grid h w v)"
  by (simp add: shaped_def constant_grid_def list_all_length)

lemma nth_constant_grid: "i < h \<Longrightarrow> j < w \<Longrightarrow> constant_grid h w v ! i ! j = v"
  by (simp add: constant_grid_def)

lemma mapg_constant: "mapg f (constant_grid h w v) = constant_grid h w (f v)"
  by (simp add: mapg_def constant_grid_def)

lemma map2g_constant:
  "map2g f (constant_grid h w u) (constant_grid h w v) = constant_grid h w (f u v)"
  by (simp add: map2g_def constant_grid_def)

lemma reflect_index_less: "0 < n \<Longrightarrow> reflect_index n k < n"
proof -
  assume n: "0 < n"
  let ?m = "k mod (2 * int n)"
  have "0 \<le> ?m" "?m < 2 * int n"
    using n by simp_all
  then show ?thesis
    by (auto simp: reflect_index_def Let_def)
qed

lemma nth_filter_axis0:
  "shaped h w a \<Longrightarrow> i < h \<Longrightarrow> j < w \<Longrightarrow>
   filter_axis0 fl n a ! i ! j = f_mean fl n (map (\<lambda>k. a ! reflect_index h k ! j) (window n i))"
  by (simp add: filter_axis0_def shaped_def list_all_length)

lemma nth_uniform_filter1d:
  "j < length xs \<Longrightarrow>
   uniform_filter1d fl n xs ! j = f_mean fl n (map (\<lambda>k. xs ! reflect_index (length xs) k) (window n j))"
  by (simp add: uniform_filter1d_def)

lemma filter_axis0_constant:
  assumes "0 < n" "exact_multiples fl n x"
  shows "filter_axis0 fl n (constant_grid h w (Finite x)) = constant_grid h w (Finite x)"
proof (rule grid_ext [of h w])
  show "shaped h w (filter_axis0 fl n (constant_grid h w (Finite x)))"
    by (simp add: shaped_filter_axis0 shaped_constant_grid)
  show "shaped h w (constant_grid h w (Finite x))"
    by (rule shaped_constant_grid)
next
  fix i j assume ij: "i < h" "j < w"
  have e: "map (\<lambda>k. constant_grid h w (Finite x) ! reflect_index h k ! j) (window n i)
      = map (\<lambda>k. Finite x) (window n i)"
    using ij by (simp add: nth_constant_grid reflect_index_less)
  have "filter_axis0 fl n (constant_grid h w (Finite x)) ! i ! j
      = f_mean fl n (map (\<lambda>k. constant_grid h w (Finite x) ! reflect_index h k ! j) (window n i))"
    using ij by (rule nth_filter_axis0 [OF shaped_constant_grid])
  also have "\<dots> = Finite x"
    unfolding e using assms by (rule f_mean_const)
  finally show "filter_axis0 fl n (constant_grid h w (Finite x)) ! i ! j
      = constant_grid h w (Finite x) ! i ! j"
    using ij by (simp add: nth_constant_grid)
qed

lemma uniform_filter1d_constant:
  assumes "0 < n" "exact_multiples fl n x"
  shows "uniform_filter1d fl n (replicate w (Finite x)) = replicate w (Finite x)"
proof (rule nth_equalityI)
  show "length (uniform_filter1d fl n (replicate w (Finite x))) = length (replicate w (Finite x))"
    by (simp add: uniform_filter1d_def)
next
  fix j assume "j < length (uniform_filter1d fl n (replicate w (Finite x)))"
  then have j: "j < w"
    by (simp add: uniform_filter1d_def)
  have e: "map (\<lambda>k. replicate w (Finite x) ! reflect_index (length (replicate w (Finite x))) k)
             (window n j)
      = map (\<lambda>k. Finite x) (window n j)"
    using j by (simp add: reflect_index_less)
  have "uniform_filter1d fl n (replicate w (Finite x)) ! j
      = f_mean fl n (map (\<lambda>k. replicate w (Finite x) !
                               reflect_index (length (replicate w (Finite x))) k) (window n j))"
    using j by (intro nth_uniform_filter1d) simp
  also have "\<dots> = Finite x"
    unfolding e using assms by (rule f_mean_const)
  finally show "uniform_filter1d fl n (replicate w (Finite x)) ! j = replicate w (Finite x) ! j"
    using j by simp
qed

lemma uniform_filter_constant:
  "0 < n \<Longrightarrow> exact_multiples fl n x \<Longrightarrow>
   uniform_filter fl n (constant_grid h w (Finite x)) = constant_grid h w (Finite x)"
  by (simp add: uniform_filter_def filter_axis0_constant)
    (simp add: filter_axis1_def constant_grid_def uniform_filter1d_constant)


lemmas grid_ops =
  np_logical_and_def np_logical_or_def np_invert_def gt_scalar_def lt_scalar_def gt_array_def

lemma derive_uniform_image:
  "derive (uniform_image h w b1 b2 b3 b4 b5 b6 b7) =
     \<lparr> band1 = constant_grid h w (Finite b1), band2 = constant_grid h w (Finite b2),
       band3 = constant_grid h w (Finite b3), band4 = constant_grid h w (Finite b4),
       band5 = constant_grid h w (Finite b5), band6 = constant_grid h w (Finite b6),
       band7 = constant_grid h w (Finite b7),
       ratio75 = constant_grid h w (f_div (Finite b7) (Finite b5)),
       ratio76 = constant_grid h w (f_div (Finite b7) (Finite b6)),
       diff17 = constant_grid h w (Finite (b1 - b7)),
       diff75 = constant_grid h w (Finite (b7 - b5)) \<rparr>"
  by (simp add: derive_def uniform_image_def map2g_constant f_sub_def)

lemma fold_and_fire_image_fields:
  "band7 (derive fold_and_fire_image) = constant_grid 61 61 (Finite 1.5)"
  "ratio75 (derive fold_and_fire_image) = constant_grid 61 61 (Finite 2)"
  "ratio76 (derive fold_and_fire_image) = constant_grid 61 61 (Finite (12 / 7))"
  "diff75 (derive fold_and_fire_image) = constant_grid 61 61 (Finite 0.75)"
  by (simp_all add: fold_and_fire_image_def derive_uniform_image del: derive_fields)

lemma fold_and_fire_image_masks:
  "unambiguous_fire (derive fold_and_fire_image) = constant_grid 61 61 False"
  "dn_fold (derive fold_and_fire_image) = constant_grid 61 61 True"
  "water_pixels (derive fold_and_fire_image) = constant_grid 61 61 False"
  "background (derive fold_and_fire_image) (constant_grid 61 61 False) (constant_grid 61 61 False)
     = constant_grid 61 61 True"
  by (simp_all add: fold_and_fire_image_def derive_uniform_image unambiguous_fire_def
      dn_fold_def water_pixels_def background_def Let_def grid_ops mapg_constant map2g_constant
      f_lt_def del: derive_fields)

lemma fold_and_fire_image_shaped:
  "fire_inputs_shaped 61 61 (derive fold_and_fire_image)"
  by (simp add: fire_inputs_shaped_def fold_and_fire_image_fields shaped_constant_grid
      del: derive_fields)

lemma exact_multiples_self: "0 < n \<Longrightarrow> exact_multiples fl n v \<Longrightarrow> fl v = v"
proof -
  assume "0 < n" and e: "exact_multiples fl n v"
  then have "(1::nat) \<le> n"
    by simp
  then have "fl (real (1::nat) * v) = real (1::nat) * v"
    using e unfolding exact_multiples_iff by blast
  then show ?thesis by simp
qed

text \<open>
  A window of one value whose multiples the rounding leaves alone: the difference under
  the root is zero and the threshold is the floor.
\<close>

lemma spec_threshold_constant:
  assumes "i < h" "j < w" "0 < c"
    and "exact_multiples fl 61 1" "exact_multiples fl 61 x" "exact_multiples fl 61 (x * x)"
  shows "spec_threshold fl (Finite c) (constant_grid h w (Finite x)) (constant_grid h w True) i j
           = Finite c"
proof -
  have e: "fl x = x" "fl (x * x) = x * x"
    using exact_multiples_self [OF _ assms(5)] exact_multiples_self [OF _ assms(6)] by simp_all
  have m: "r_mul fl (Finite x) (Finite x) = Finite (x * x)"
    using e by (simp add: r_mul_def)
  have d: "r_div fl (Finite x) (Finite 1) = Finite x"
    "r_div fl (Finite (x * x)) (Finite 1) = Finite (x * x)"
    using e by (simp_all add: r_div_def)
  have wt: "weights fl (constant_grid h w True) = constant_grid h w (Finite 1)"
    using assms(4) by (simp add: weights_def bg_mask_def mapg_constant uniform_filter_constant)
  have mean: "spec_mean fl (constant_grid h w (Finite x)) (constant_grid h w True) i j = Finite x"
    using assms(1,2,5)
    by (simp add: spec_mean_def wt bg_mask_def mapg_constant map2g_constant
        uniform_filter_constant nth_constant_grid d)
  have sq: "spec_mean_of_squares fl (constant_grid h w (Finite x)) (constant_grid h w True) i j
      = Finite (x * x)"
    using assms(1,2,6)
    by (simp add: spec_mean_of_squares_def wt bg_mask_def mapg_constant map2g_constant m
        uniform_filter_constant nth_constant_grid d)
  have "spec_radicand fl (constant_grid h w (Finite x)) (constant_grid h w True) i j = Finite 0"
    by (simp add: spec_radicand_def mean sq m r_sub_def f_sub_def)
  then show ?thesis
    using assms(3)
    by (simp add: spec_threshold_def spec_stddev_def r_sqrt_def r_mul_def f_lt_def Let_def)
qed

lemma quarters_exact:
  assumes "exact_on_quarters fl"
  shows "exact_multiples fl 61 1" "exact_multiples fl 61 (3 / 2)" "exact_multiples fl 61 2"
    "exact_multiples fl 61 (9 / 4)" "exact_multiples fl 61 4"
  using exact_on_quarters_multiples [OF assms, of 61 4]
    exact_on_quarters_multiples [OF assms, of 61 6]
    exact_on_quarters_multiples [OF assms, of 61 8]
    exact_on_quarters_multiples [OF assms, of 61 9]
    exact_on_quarters_multiples [OF assms, of 61 16]
  by simp_all

lemma fold_and_fire_image_tests:
  assumes "exact_on_quarters fl" "i < 61" "j < 61"
  shows "spec_direct_test (derive fold_and_fire_image) i j"
    and "spec_adaptive_test fl (derive fold_and_fire_image) (constant_grid 61 61 True) i j"
  using assms(2,3) quarters_exact [OF assms(1)]
  by (simp_all add: spec_direct_test_def spec_adaptive_test_def fold_and_fire_image_fields
      spec_threshold_constant nth_constant_grid del: derive_fields)

subsection \<open>The one-pixel image\<close>

lemmas ma_eval =
  masked_array_def ma_gt_scalar_def ma_gt_array_def ma_logical_and_def ma_astype_uint8_def
  ma_mul_scalar_def ma_radd_def astype_uint8_def unmasked_def

lemmas potential_eval =
  bg_inv_def ma_ratio75_def ma_ratio76_def ma_diff75_def ma_band7_def
  potential_test_1_def potential_test_2_def potential_test_3_def potential_test_4_def
  bg_mask_def weights_def mask_band7_def mask_ratio75_def b7_means_def ratio75_means_def
  b7_squares_def ratio75_squares_def times3_def assign_below_def b7_stddev_def
  ratio75_stddev_def

lemmas rounded_ops = r_add_def r_sub_def r_mul_def r_div_def r_sqrt_def

lemma quarters_values:
  assumes "exact_on_quarters fl"
  shows "fl 1 = 1" "fl (3 / 2) = 3 / 2" "fl 2 = 2" "fl (9 / 4) = 9 / 4" "fl 4 = 4"
  using quarters_exact [OF assms, THEN exact_multiples_self [rotated]] by simp_all

lemma detectors_dn_fold_potential:
  "unambiguous_fire (derive fold_and_fire) = [[False]]"
  "dn_fold (derive fold_and_fire) = [[True]]"
  "water_pixels (derive fold_and_fire) = [[False]]"
  by (simp_all add: fold_and_fire_def derive_pixel unambiguous_fire_def dn_fold_def
      water_pixels_def Let_def grid_eval)

lemma background_dn_fold_potential:
  "background (derive fold_and_fire) [[False]] [[False]] = [[True]]"
  by (simp add: fold_and_fire_def derive_pixel background_def Let_def grid_eval)

lemma potential_dn_fold_potential:
  assumes "exact_on_quarters fl"
  shows "potential_fire fl (derive fold_and_fire) [[True]] False
     = \<lparr> ma_data = [[True]], ma_mask = [[False]] \<rparr>"
  by (simp add: fold_and_fire_def derive_pixel potential_fire_def Let_def potential_eval ma_eval
      grid_eval rounded_ops uniform_filter_one_pixel quarters_exact [OF assms]
      quarters_values [OF assms])

lemma classify_dn_fold_potential:
  assumes "exact_on_quarters fl"
  shows "classify fl False (derive fold_and_fire) = [[4]]"
  by (simp add: classify_def Let_def detectors_dn_fold_potential background_dn_fold_potential
      potential_dn_fold_potential [OF assms] make_classified_array_def ma_eval grid_eval)

text \<open>
  The same pixel when every result is rounded up to an integer. The window means come out
  above the value, the difference under the root is negative, and the threshold of band7
  is NaN: the pixel is no potential-fire pixel then.
\<close>

lemma exact_multiples_round_up: "exact_multiples round_up n (real_of_int z)"
proof -
  have "\<lceil>real k * real_of_int z\<rceil> = int k * z" for k
    by (metis ceiling_of_int of_int_mult of_int_of_nat_eq)
  then show ?thesis
    by (simp add: exact_multiples_iff round_up_def)
qed

lemma round_up_sum_of_halves:
  "foldl (r_add round_up) (Finite (real (2 * m))) (map (\<lambda>k. Finite (3 / 2)) ks)
     = Finite (real (2 * (m + length ks)))"
proof (induction ks arbitrary: m)
  case Nil
  then show ?case by simp
next
  case (Cons k ks)
  have "\<lceil>real (2 * m) + 3 / 2\<rceil> = int (2 * Suc m)"
    by (simp add: ceiling_eq_iff)
  then have "r_add round_up (Finite (real (2 * m))) (Finite (3 / 2)) = Finite (real (2 * Suc m))"
    by (simp add: r_add_def round_up_def)
  then show ?case
    using Cons.IH [of "Suc m"] by simp
qed

lemma round_up_window:
  "uniform_filter round_up 61 [[Finite (3 / 2)]] = [[Finite 2]]"
proof -
  have "f_mean round_up 61 (map (\<lambda>k. Finite (3 / 2)) (window 61 i)) = Finite 2" for i
    using round_up_sum_of_halves [of 0 "window 61 i"]
    by (simp add: f_mean_def f_sum_def length_window r_div_def round_up_def)
  then have "filter_axis0 round_up 61 [[Finite (3 / 2)]] = [[Finite 2]]"
    by (simp add: filter_axis0_def reflect_index_one)
  moreover have "uniform_filter1d round_up 61 [Finite 2] = [Finite 2]"
    using exact_multiples_round_up [of 61 2]
    by (simp add: uniform_filter1d_def reflect_index_one f_mean_const)
  ultimately show ?thesis
    by (simp add: uniform_filter_def filter_axis1_def)
qed

lemma round_up_radicand:
  "weights round_up [[True]] = [[Finite 1]]"
  "spec_radicand round_up [[Finite (3 / 2)]] [[True]] 0 0 = Finite (- 1)"
proof -
  show w: "weights round_up [[True]] = [[Finite 1]]"
    using exact_multiples_round_up [of 61 1]
    by (simp add: weights_def bg_mask_def mapg_def uniform_filter_one_pixel)
  have three: "uniform_filter round_up 61 [[Finite 3]] = [[Finite 3]]"
    using exact_multiples_round_up [of 61 3] by (simp add: uniform_filter_one_pixel)
  show "spec_radicand round_up [[Finite (3 / 2)]] [[True]] 0 0 = Finite (- 1)"
    by (simp add: spec_radicand_def spec_mean_def spec_mean_of_squares_def w bg_mask_def
        mapg_def map2g_def rounded_ops round_up_def round_up_window three f_sub_def)
qed

lemma three_halves_fields:
  "band7 (derive three_halves) = [[Finite (3 / 2)]]"
  "ratio75 (derive three_halves) = [[Finite (3 / 2)]]"
  "fire_inputs_shaped 1 1 (derive three_halves)"
  by (simp_all add: three_halves_def derive_pixel fire_inputs_shaped_def shaped_def)

lemma spec_threshold_cases:
  "spec_threshold fl (Finite c) x bg i j = NaN \<or>
   f_le (Finite c) (spec_threshold fl (Finite c) x bg i j)"
  by (cases "r_mul fl (Finite 3) (spec_stddev fl x bg i j)")
    (simp_all add: spec_threshold_def Let_def f_lt_def f_le_def)

lemma fire_inputs_shaped_derive: "bands_shaped h w b \<Longrightarrow> fire_inputs_shaped h w (derive b)"
  using shaped_derive [of h w b]
  by (simp add: fire_inputs_shaped_def bands_shaped_def del: derive_fields)

section \<open>The claims\<close>

subsection \<open>Values outside the four classes\<close>

text \<open>
  Claim C1. A pixel that is a DN-fold pixel and a potential-fire pixel gets the value
  \<open>1 + 3 = 4\<close>, outside the four classes: so for the 61 by 61 image of such pixels under
  the default edge masking (at its centre), and for the one-pixel image with edge
  masking disabled. The band values of the pixel are multiples of 1/8 and every sum,
  product and quotient of the window statistics is a multiple of 1/4 below 250, so the
  result is the same under every rounding that keeps such numbers, as every binary
  floating-point format does. On three plain boolean arrays that are all True
  \<open>make_classified_array\<close> returns 6.
\<close>

theorem classified_value_outside_domain:
  assumes "exact_on_quarters fl"
  shows "classify fl True (derive fold_and_fire_image) ! 30 ! 30 = 4 \<and>
         classify fl False (derive fold_and_fire) = [[4]] \<and>
         make_classified_array [[True]] [[False]] (unmasked [[True]]) = [[4]] \<and>
         make_classified_array [[True]] [[True]] (unmasked [[True]]) = [[6]]"
proof -
  let ?g = "derive fold_and_fire_image"
  let ?bg = "constant_grid 61 61 True :: bool grid"
  have s: "fire_inputs_shaped 61 61 ?g" "shaped 61 61 ?bg"
    by (simp_all add: fold_and_fire_image_shaped shaped_constant_grid)
  have lt: "(30::nat) < 61"
    by simp
  have p: "ma_data (potential_fire fl ?g ?bg True) ! 30 ! 30"
    "\<not> ma_mask (potential_fire fl ?g ?bg True) ! 30 ! 30"
    using potential_fire_nth [OF s lt lt, of fl True] fold_and_fire_image_tests [OF assms lt lt]
    by (simp_all add: in_border_def nth_constant_grid)
  have "make_classified_array (constant_grid 61 61 True) (constant_grid 61 61 False)
      (potential_fire fl ?g ?bg True) ! 30 ! 30 = 4"
    using make_classified_array_nth [OF shaped_constant_grid shaped_constant_grid
        shaped_potential_fire [OF s] lt lt, of True False fl True] p
    by (simp add: nth_constant_grid)
  then have "classify fl True ?g ! 30 ! 30 = 4"
    by (simp add: classify_def Let_def fold_and_fire_image_masks del: derive_fields)
  moreover have "make_classified_array [[True]] [[False]] (unmasked [[True]]) = [[4]]"
    "make_classified_array [[True]] [[True]] (unmasked [[True]]) = [[6]]"
    by (simp_all add: make_classified_array_def Let_def ma_eval grid_eval)
  ultimately show ?thesis
    using classify_dn_fold_potential [OF assms] by simp
qed

theorem classified_value_outside_domain_witness:
  "exact_on_quarters unrounded \<and>
   classify unrounded True (derive fold_and_fire_image) ! 30 ! 30 = 4 \<and>
   classify unrounded False (derive fold_and_fire) = [[4]] \<and>
   make_classified_array [[True]] [[False]] (unmasked [[True]]) = [[4]] \<and>
   make_classified_array [[True]] [[True]] (unmasked [[True]]) = [[6]]"
  using classified_value_outside_domain [OF exact_on_quarters_unrounded]
    exact_on_quarters_unrounded
  by blast

subsection \<open>Non-background pixels\<close>

text \<open>
  Claim C2, as amended. At a pixel where the background mask passed to \<open>potential_fire\<close>
  is False, the result of the direct thresholds is masked, and so is the element of the
  array that \<open>potential_fire\<close> returns: it is excluded, not False, and the data under the
  mask is the comparison of the unmasked values. With edge masking enabled an element in
  the 30-pixel border is an unmasked False instead. Under either setting the element
  never shows as True, and it adds nothing to the classified array, whose value at the
  pixel is \<open>1 * DN-fold + 2 * unambiguous-fire\<close>. This holds under every rounding of the
  window statistics.
\<close>

theorem non_background_masked:
  assumes "fire_inputs_shaped h w g" "shaped h w bg" "shaped h w dn" "shaped h w un"
    "i < h" "j < w" "\<not> bg ! i ! j"
  shows "visible (potential_test_3 g bg) i j = None \<and>
         visible (potential_fire fl g bg False) i j = None \<and>
         ma_data (potential_fire fl g bg False) ! i ! j
           = (spec_direct_test g i j \<and> spec_adaptive_test fl g bg i j) \<and>
         visible (potential_fire fl g bg True) i j
           = (if in_border h w i j then Some False else None) \<and>
         visible (potential_fire fl g bg mask_edges) i j \<noteq> Some True \<and>
         make_classified_array dn un (potential_fire fl g bg mask_edges) ! i ! j
           = (if dn ! i ! j then 1 else 0) + (if un ! i ! j then 2 else 0)"
proof -
  note a = assms(1,2,5,6)
  have "make_classified_array dn un (potential_fire fl g bg mask_edges) ! i ! j
      = (if dn ! i ! j then 1 else 0) + (if un ! i ! j then 2 else 0)"
    using make_classified_array_nth [OF assms(3,4) shaped_potential_fire [OF assms(1,2)] assms(5,6)]
      potential_fire_nth [OF a, of fl mask_edges] assms(7)
    by simp
  then show ?thesis
    using potential_test_3_nth [OF a] potential_fire_nth [OF a, of fl True]
      potential_fire_nth [OF a, of fl False] potential_fire_nth [OF a, of fl mask_edges] assms(7)
    by (simp add: visible_def)
qed

theorem non_background_masked_witness:
  "fire_inputs_shaped 1 3 (derive three_pixels) \<and> shaped 1 3 [[False, True, True]] \<and>
   shaped 1 3 [[False, False, False]] \<and> shaped 1 3 [[True, False, False]] \<and>
   \<not> [[False, True, True]] ! 0 ! 0 \<and>
   visible (potential_fire unrounded (derive three_pixels) [[False, True, True]] False) 0 0
     = None \<and>
   visible (potential_fire unrounded (derive three_pixels) [[False, True, True]] True) 0 0
     = Some False \<and>
   make_classified_array [[False, False, False]] [[True, False, False]]
     (potential_fire unrounded (derive three_pixels) [[False, True, True]] False) ! 0 ! 0 = 2"
proof -
  let ?g = "derive three_pixels"
  have s: "fire_inputs_shaped 1 3 ?g" "shaped 1 3 [[False, True, True]]"
    "shaped 1 3 [[False, False, False]]" "shaped 1 3 [[True, False, False]]"
    using three_pixels_shaped by simp_all
  have lt: "(0::nat) < 1" "(0::nat) < 3"
    by simp_all
  have n: "\<not> [[False, True, True]] ! 0 ! 0"
    by simp
  have b: "in_border 1 3 0 0"
    by (simp add: in_border_def)
  note t = non_background_masked [OF s lt n, of unrounded]
  have v: "visible (potential_fire unrounded ?g [[False, True, True]] False) 0 0 = None"
    using t by blast
  have e: "visible (potential_fire unrounded ?g [[False, True, True]] True) 0 0 = Some False"
    using t [of False] b by simp
  have c: "make_classified_array [[False, False, False]] [[True, False, False]]
      (potential_fire unrounded ?g [[False, True, True]] False) ! 0 ! 0 = 2"
    using t [of False] by simp
  show ?thesis
    using s n v e c by simp
qed

text \<open>
  The first of the three pixels is not a background pixel, and the element that
  \<open>potential_fire\<close> returns for it is not an unmasked False: it is masked, over the data
  True. Its band7 is 0.6 against a threshold of 0.15 and its ratio75 is 6 against a
  threshold of 1.5.
\<close>

theorem non_background_counterexample:
  "background (derive three_pixels) (unambiguous_fire (derive three_pixels))
      (water_pixels (derive three_pixels)) ! 0 ! 0 = False \<and>
   ma_data (potential_fire unrounded (derive three_pixels)
      (background (derive three_pixels) (unambiguous_fire (derive three_pixels))
         (water_pixels (derive three_pixels))) False) ! 0 ! 0 = True \<and>
   ma_mask (potential_fire unrounded (derive three_pixels)
      (background (derive three_pixels) (unambiguous_fire (derive three_pixels))
         (water_pixels (derive three_pixels))) False) ! 0 ! 0 = True"
proof -
  have lt: "(0::nat) < 1" "(0::nat) < 3"
    by simp_all
  have bg: "background (derive three_pixels) (unambiguous_fire (derive three_pixels))
      (water_pixels (derive three_pixels)) = [[False, True, True]]"
    by (simp only: three_pixels_masks)
  show ?thesis
    unfolding bg
    using potential_array_nth [OF three_pixels_shaped(1,2) lt, of unrounded]
      three_pixels_tests(1) three_pixels_adaptive
    by simp
qed

subsection \<open>The shape check\<close>

text \<open>
  Claim C3. \<open>check_shapes\<close> subscripts the method \<^verbatim>\<open>shapes_list.count\<close> where a call is
  meant, so on every set of bands, of one shape or not, it raises \<^verbatim>\<open>TypeError\<close>: it
  never returns \<open>shape_test = True\<close>, the script never raises its \<^verbatim>\<open>ValueError\<close> for a
  shape mismatch, and no detector runs.
\<close>

theorem check_shapes_raises:
  "check_shapes b = Inl TypeError \<and> script fl edges_check b = Inl TypeError \<and>
   check_shapes fold_and_fire_image = Inl TypeError"
  by (simp add: script_def check_shapes_type_error bind_def)

subsection \<open>The local statistics\<close>

text \<open>
  Claim C4. In \<open>potential_fire\<close>, for band7 and for ratio75, the mean over the 61 by 61
  window is the uniform filter of value times background indicator divided by the
  weight, the mean of squares is the uniform filter of squared value times indicator
  divided by the weight, and the standard deviation is the square root of the mean of
  squares less the squared mean. The standard deviation is multiplied by 3 and raised to
  the floor 0.08 for band7 and 0.8 for ratio75, and the adaptive test is
  \<open>ratio75 > threshold of ratio75 and band7 > threshold of band7\<close>, masked outside the
  background. Every sum, product, quotient, difference and root is rounded, by a
  rounding \<open>fl\<close> that the statement leaves open. A threshold is never below its floor:
  it is NaN or at least the floor. Where the weight is zero the divisions raise nothing
  and give non-finite values; both thresholds are then NaN and the two comparisons
  fail. Where rounding leaves the mean of squares below the squared mean, the root is
  NaN, the floor does not replace it, and the comparison with that threshold fails too.
\<close>

theorem local_statistics:
  assumes "fire_inputs_shaped h w g" "shaped h w bg" "i < h" "j < w"
  shows "b7_means fl g bg ! i ! j = spec_mean fl (band7 g) bg i j \<and>
         ratio75_means fl g bg ! i ! j = spec_mean fl (ratio75 g) bg i j \<and>
         b7_squares fl g bg ! i ! j = spec_mean_of_squares fl (band7 g) bg i j \<and>
         ratio75_squares fl g bg ! i ! j = spec_mean_of_squares fl (ratio75 g) bg i j \<and>
         b7_stddev fl g bg ! i ! j = spec_threshold fl (Finite 0.08) (band7 g) bg i j \<and>
         ratio75_stddev fl g bg ! i ! j = spec_threshold fl (Finite 0.8) (ratio75 g) bg i j \<and>
         \<not> f_lt (b7_stddev fl g bg ! i ! j) (Finite 0.08) \<and>
         \<not> f_lt (ratio75_stddev fl g bg ! i ! j) (Finite 0.8) \<and>
         (b7_stddev fl g bg ! i ! j = NaN \<or> f_le (Finite 0.08) (b7_stddev fl g bg ! i ! j)) \<and>
         (ratio75_stddev fl g bg ! i ! j = NaN \<or>
            f_le (Finite 0.8) (ratio75_stddev fl g bg ! i ! j)) \<and>
         ma_data (potential_test_4 fl g bg) ! i ! j = spec_adaptive_test fl g bg i j \<and>
         ma_mask (potential_test_4 fl g bg) ! i ! j = (\<not> bg ! i ! j) \<and>
         (weights fl bg ! i ! j = Finite 0 \<longrightarrow>
            \<not> is_finite (b7_means fl g bg ! i ! j) \<and>
            \<not> is_finite (ratio75_means fl g bg ! i ! j) \<and>
            \<not> is_finite (b7_squares fl g bg ! i ! j) \<and>
            \<not> is_finite (ratio75_squares fl g bg ! i ! j) \<and>
            b7_stddev fl g bg ! i ! j = NaN \<and> ratio75_stddev fl g bg ! i ! j = NaN \<and>
            \<not> f_gt (band7 g ! i ! j) (b7_stddev fl g bg ! i ! j) \<and>
            \<not> f_gt (ratio75 g ! i ! j) (ratio75_stddev fl g bg ! i ! j) \<and>
            \<not> ma_data (potential_test_4 fl g bg) ! i ! j) \<and>
         (f_lt (spec_radicand fl (band7 g) bg i j) (Finite 0) \<longrightarrow>
            b7_stddev fl g bg ! i ! j = NaN \<and>
            \<not> f_gt (band7 g ! i ! j) (b7_stddev fl g bg ! i ! j) \<and>
            \<not> ma_data (potential_test_4 fl g bg) ! i ! j) \<and>
         (f_lt (spec_radicand fl (ratio75 g) bg i j) (Finite 0) \<longrightarrow>
            ratio75_stddev fl g bg ! i ! j = NaN \<and>
            \<not> f_gt (ratio75 g ! i ! j) (ratio75_stddev fl g bg ! i ! j) \<and>
            \<not> ma_data (potential_test_4 fl g bg) ! i ! j)"
proof -
  note stats = b7_means_nth [OF assms] ratio75_means_nth [OF assms] b7_squares_nth [OF assms]
    ratio75_squares_nth [OF assms] b7_stddev_nth [OF assms] ratio75_stddev_nth [OF assms]
  have zero: "\<not> is_finite (spec_mean fl x bg i j) \<and>
      \<not> is_finite (spec_mean_of_squares fl x bg i j) \<and>
      spec_threshold fl c x bg i j = NaN" if "weights fl bg ! i ! j = Finite 0" for x c
    using that
    by (simp add: spec_mean_def spec_mean_of_squares_def r_div_zero_not_finite
        spec_threshold_zero_weight)
  have neg: "spec_threshold fl c x bg i j = NaN"
    if "f_lt (spec_radicand fl x bg i j) (Finite 0)" for x c
    using that by (rule spec_threshold_negative)
  have cases: "spec_threshold fl (Finite c) x bg i j = NaN \<or>
      f_le (Finite c) (spec_threshold fl (Finite c) x bg i j)" for c x
    by (rule spec_threshold_cases)
  have floor: "\<not> f_lt (spec_threshold fl (Finite c) x bg i j) (Finite c)" for c x
    by (rule spec_threshold_floor)
  show ?thesis
    unfolding stats potential_test_4_nth [OF assms] spec_adaptive_test_def
    using zero neg cases floor f_gt_NaN by metis
qed

theorem local_statistics_witness:
  "fire_inputs_shaped 1 3 (derive three_pixels) \<and> shaped 1 3 [[False, True, True]] \<and>
   b7_stddev unrounded (derive three_pixels) [[False, True, True]] ! 0 ! 0 = Finite 0.15 \<and>
   ratio75_stddev unrounded (derive three_pixels) [[False, True, True]] ! 0 ! 0 = Finite 1.5 \<and>
   ma_data (potential_test_4 unrounded (derive three_pixels) [[False, True, True]]) ! 0 ! 0 \<and>
   ma_mask (potential_test_4 unrounded (derive three_pixels) [[False, True, True]]) ! 0 ! 0 \<and>
   fire_inputs_shaped 1 1 (derive fold_and_fire) \<and> shaped 1 1 [[False]] \<and>
   weights unrounded [[False]] ! 0 ! 0 = Finite 0 \<and>
   b7_stddev unrounded (derive fold_and_fire) [[False]] ! 0 ! 0 = NaN \<and>
   \<not> ma_data (potential_test_4 unrounded (derive fold_and_fire) [[False]]) ! 0 ! 0 \<and>
   fire_inputs_shaped 1 1 (derive three_halves) \<and> shaped 1 1 [[True]] \<and>
   f_lt (spec_radicand round_up (band7 (derive three_halves)) [[True]] 0 0) (Finite 0) \<and>
   f_lt (spec_radicand round_up (ratio75 (derive three_halves)) [[True]] 0 0) (Finite 0) \<and>
   b7_stddev round_up (derive three_halves) [[True]] ! 0 ! 0 = NaN \<and>
   ratio75_stddev round_up (derive three_halves) [[True]] ! 0 ! 0 = NaN \<and>
   \<not> ma_data (potential_test_4 round_up (derive three_halves) [[True]]) ! 0 ! 0"
proof -
  have s3: "fire_inputs_shaped 1 3 (derive three_pixels)" "shaped 1 3 [[False, True, True]]"
    using three_pixels_shaped by simp_all
  have s1: "fire_inputs_shaped 1 1 (derive fold_and_fire)" "shaped 1 1 [[False]]"
    by (simp_all add: fold_and_fire_def derive_pixel fire_inputs_shaped_def shaped_def)
  have s2: "fire_inputs_shaped 1 1 (derive three_halves)" "shaped 1 1 [[True]]"
    using three_halves_fields(3) by (simp_all add: shaped_def)
  have lt: "(0::nat) < 1" "(0::nat) < 3"
    by simp_all
  have z: "weights unrounded [[False]] ! 0 ! 0 = Finite 0"
    by (simp add: weights_def bg_mask_def mapg_def uniform_filter_one_pixel
        exact_multiples_unrounded)
  have r: "f_lt (spec_radicand round_up (band7 (derive three_halves)) [[True]] 0 0) (Finite 0)"
    "f_lt (spec_radicand round_up (ratio75 (derive three_halves)) [[True]] 0 0) (Finite 0)"
    unfolding three_halves_fields round_up_radicand by (simp_all add: f_lt_def)
  have a: "b7_stddev unrounded (derive three_pixels) [[False, True, True]] ! 0 ! 0
        = spec_threshold unrounded (Finite 0.08) (band7 (derive three_pixels))
            [[False, True, True]] 0 0 \<and>
    ratio75_stddev unrounded (derive three_pixels) [[False, True, True]] ! 0 ! 0
        = spec_threshold unrounded (Finite 0.8) (ratio75 (derive three_pixels))
            [[False, True, True]] 0 0 \<and>
    ma_data (potential_test_4 unrounded (derive three_pixels) [[False, True, True]]) ! 0 ! 0
        = spec_adaptive_test unrounded (derive three_pixels) [[False, True, True]] 0 0 \<and>
    ma_mask (potential_test_4 unrounded (derive three_pixels) [[False, True, True]]) ! 0 ! 0
        = (\<not> [[False, True, True]] ! 0 ! 0)"
    using local_statistics [OF s3 lt, of unrounded] by blast
  have b: "b7_stddev unrounded (derive fold_and_fire) [[False]] ! 0 ! 0 = NaN \<and>
    \<not> ma_data (potential_test_4 unrounded (derive fold_and_fire) [[False]]) ! 0 ! 0"
    using local_statistics [OF s1 lt(1) lt(1), of unrounded] z by blast
  have c: "b7_stddev round_up (derive three_halves) [[True]] ! 0 ! 0 = NaN \<and>
    ratio75_stddev round_up (derive three_halves) [[True]] ! 0 ! 0 = NaN \<and>
    \<not> ma_data (potential_test_4 round_up (derive three_halves) [[True]]) ! 0 ! 0"
    using local_statistics [OF s2 lt(1) lt(1), of round_up] r by blast
  have a': "b7_stddev unrounded (derive three_pixels) [[False, True, True]] ! 0 ! 0
      = Finite 0.15 \<and>
    ratio75_stddev unrounded (derive three_pixels) [[False, True, True]] ! 0 ! 0
      = Finite 1.5 \<and>
    ma_data (potential_test_4 unrounded (derive three_pixels) [[False, True, True]]) ! 0 ! 0 \<and>
    ma_mask (potential_test_4 unrounded (derive three_pixels) [[False, True, True]]) ! 0 ! 0"
    using three_pixels_adaptive by (simp only: a three_pixels_tests) simp
  show ?thesis
    using s3 s1 s2 z r a' b c by simp
qed

subsection \<open>Edge masking\<close>

text \<open>
  Claim C5. With the edge-masking flag enabled, every pixel of the output of
  \<open>potential_fire\<close> within 30 pixels of an edge of the grid is False, whatever the
  threshold and statistics tests say. With the flag disabled a border pixel is computed
  as every other pixel is, by the direct thresholds and the adaptive test, and no border
  is forced to False; an interior pixel is the same under both settings. This holds
  under every rounding of the window statistics.
\<close>

theorem edge_masking:
  assumes "fire_inputs_shaped h w g" "shaped h w bg" "i < h" "j < w"
  shows "(in_border h w i j \<longrightarrow>
            ma_data (potential_fire fl g bg True) ! i ! j = False \<and>
            ma_mask (potential_fire fl g bg True) ! i ! j = False) \<and>
         ma_data (potential_fire fl g bg False) ! i ! j
           = (spec_direct_test g i j \<and> spec_adaptive_test fl g bg i j) \<and>
         ma_mask (potential_fire fl g bg False) ! i ! j = (\<not> bg ! i ! j) \<and>
         (\<not> in_border h w i j \<longrightarrow>
            ma_data (potential_fire fl g bg True) ! i ! j
              = ma_data (potential_fire fl g bg False) ! i ! j \<and>
            ma_mask (potential_fire fl g bg True) ! i ! j
              = ma_mask (potential_fire fl g bg False) ! i ! j)"
  using potential_fire_nth [OF assms, of fl True] potential_fire_nth [OF assms, of fl False]
  by simp

theorem edge_masking_witness:
  "fire_inputs_shaped 61 61 (derive fold_and_fire_image) \<and>
   shaped 61 61 (constant_grid 61 61 True) \<and>
   in_border 61 61 0 45 \<and>
   ma_data (potential_fire unrounded (derive fold_and_fire_image) (constant_grid 61 61 True)
      True) ! 0 ! 45 = False \<and>
   ma_mask (potential_fire unrounded (derive fold_and_fire_image) (constant_grid 61 61 True)
      True) ! 0 ! 45 = False \<and>
   ma_data (potential_fire unrounded (derive fold_and_fire_image) (constant_grid 61 61 True)
      False) ! 0 ! 45 = True \<and>
   \<not> in_border 61 61 30 30 \<and>
   ma_data (potential_fire unrounded (derive fold_and_fire_image) (constant_grid 61 61 True)
      True) ! 30 ! 30 = True \<and>
   ma_data (potential_fire unrounded (derive fold_and_fire_image) (constant_grid 61 61 True)
      False) ! 30 ! 30 = True"
proof -
  let ?g = "derive fold_and_fire_image"
  let ?bg = "constant_grid 61 61 True :: bool grid"
  have s: "fire_inputs_shaped 61 61 ?g" "shaped 61 61 ?bg"
    by (simp_all add: fold_and_fire_image_shaped shaped_constant_grid)
  have lt: "(0::nat) < 61" "(45::nat) < 61" "(30::nat) < 61"
    by simp_all
  have b: "in_border 61 61 0 45" "\<not> in_border 61 61 30 30"
    by (simp_all add: in_border_def)
  have t: "spec_direct_test ?g 0 45 \<and> spec_adaptive_test unrounded ?g ?bg 0 45"
    "spec_direct_test ?g 30 30 \<and> spec_adaptive_test unrounded ?g ?bg 30 30"
    using fold_and_fire_image_tests [OF exact_on_quarters_unrounded] lt by simp_all
  have e: "ma_data (potential_fire unrounded ?g ?bg True) ! 0 ! 45 = False \<and>
      ma_mask (potential_fire unrounded ?g ?bg True) ! 0 ! 45 = False \<and>
      ma_data (potential_fire unrounded ?g ?bg False) ! 0 ! 45 = True"
    using edge_masking [OF s lt(1) lt(2), of unrounded] b(1) t(1) by blast
  have c: "ma_data (potential_fire unrounded ?g ?bg True) ! 30 ! 30 = True \<and>
      ma_data (potential_fire unrounded ?g ?bg False) ! 30 ! 30 = True"
    using edge_masking [OF s lt(3) lt(3), of unrounded] b(2) t(2) by blast
  show ?thesis
    using s b e c by simp
qed

subsection \<open>The background mask\<close>

text \<open>
  Claim C6. At every pixel the array that \<open>background\<close> returns is
  \<open>not (unambiguous or water) and band7 > 0\<close>. So it is False wherever the unambiguous-fire
  mask or the water mask is True, and False wherever \<open>band7 \<le> 0\<close>.
\<close>

theorem background_iff:
  assumes "shaped h w unambiguous_array" "shaped h w water_array" "shaped h w (band7 g)"
    "i < h" "j < w"
  shows "(background g unambiguous_array water_array ! i ! j \<longleftrightarrow>
            \<not> (unambiguous_array ! i ! j \<or> water_array ! i ! j) \<and>
            f_gt (band7 g ! i ! j) (Finite 0)) \<and>
         (unambiguous_array ! i ! j \<or> water_array ! i ! j \<longrightarrow>
            \<not> background g unambiguous_array water_array ! i ! j) \<and>
         (f_le (band7 g ! i ! j) (Finite 0) \<longrightarrow>
            \<not> background g unambiguous_array water_array ! i ! j)"
  using background_nth [OF assms] by (auto simp: f_le_def)

theorem background_iff_witness:
  "shaped 1 2 [[True, False]] \<and> shaped 1 2 [[False, False]] \<and>
   shaped 1 2 (band7 (derive \<lparr> band1 = [[Finite 0, Finite 0]], band2 = [[Finite 0, Finite 0]],
      band3 = [[Finite 0, Finite 0]], band4 = [[Finite 0, Finite 0]],
      band5 = [[Finite 1, Finite 1]], band6 = [[Finite 1, Finite 1]],
      band7 = [[Finite 0.6, Finite 0.2]] \<rparr>)) \<and>
   \<not> background (derive \<lparr> band1 = [[Finite 0, Finite 0]], band2 = [[Finite 0, Finite 0]],
      band3 = [[Finite 0, Finite 0]], band4 = [[Finite 0, Finite 0]],
      band5 = [[Finite 1, Finite 1]], band6 = [[Finite 1, Finite 1]],
      band7 = [[Finite 0.6, Finite 0.2]] \<rparr>) [[True, False]] [[False, False]] ! 0 ! 0 \<and>
   background (derive \<lparr> band1 = [[Finite 0, Finite 0]], band2 = [[Finite 0, Finite 0]],
      band3 = [[Finite 0, Finite 0]], band4 = [[Finite 0, Finite 0]],
      band5 = [[Finite 1, Finite 1]], band6 = [[Finite 1, Finite 1]],
      band7 = [[Finite 0.6, Finite 0.2]] \<rparr>) [[True, False]] [[False, False]] ! 0 ! 1"
proof -
  let ?g = "derive \<lparr> band1 = [[Finite 0, Finite 0]], band2 = [[Finite 0, Finite 0]],
      band3 = [[Finite 0, Finite 0]], band4 = [[Finite 0, Finite 0]],
      band5 = [[Finite 1, Finite 1]], band6 = [[Finite 1, Finite 1]],
      band7 = [[Finite 0.6, Finite 0.2]] \<rparr>"
  have s: "shaped 1 2 [[True, False]]" "shaped 1 2 [[False, False]]" "shaped 1 2 (band7 ?g)"
    by (simp_all add: shaped_def)
  have t: "f_gt (band7 ?g ! 0 ! 1) (Finite 0)"
    by simp
  show ?thesis
    using s t background_iff [OF s, of 0 0] background_iff [OF s, of 0 1] by simp
qed

subsection \<open>Unambiguous fire\<close>

text \<open>
  Claim C7. At every pixel \<open>unambiguous_fire\<close> is True if and only if
  \<open>ratio75 > 2.5\<close>, \<open>diff75 > 0.3\<close> and \<open>band7 > 0.5\<close>, each inequality strict. A pixel
  with \<open>band5 = 0.1\<close> and \<open>band7 = 0.6\<close> is True; with \<open>band7 = 0.5\<close> it is False.
\<close>

theorem unambiguous_fire_iff:
  assumes "shaped h w (ratio75 g)" "shaped h w (diff75 g)" "shaped h w (band7 g)" "i < h" "j < w"
  shows "(unambiguous_fire g ! i ! j \<longleftrightarrow>
            f_gt (ratio75 g ! i ! j) (Finite 2.5) \<and> f_gt (diff75 g ! i ! j) (Finite 0.3) \<and>
            f_gt (band7 g ! i ! j) (Finite 0.5)) \<and>
         unambiguous_fire (derive (pixel b1 b2 b3 b4 0.1 b6 0.6)) = [[True]] \<and>
         unambiguous_fire (derive (pixel b1 b2 b3 b4 0.1 b6 0.5)) = [[False]]"
proof -
  have "unambiguous_fire (derive (pixel b1 b2 b3 b4 0.1 b6 0.6)) = [[True]]"
    by (simp add: derive_pixel unambiguous_fire_def Let_def grid_eval)
  moreover have "unambiguous_fire (derive (pixel b1 b2 b3 b4 0.1 b6 0.5)) = [[False]]"
    by (simp add: derive_pixel unambiguous_fire_def Let_def grid_eval)
  ultimately show ?thesis
    using unambiguous_fire_nth [OF assms] by simp
qed

theorem unambiguous_fire_iff_witness:
  "shaped 1 1 (ratio75 (derive (pixel 0.3 0.25 0.2 0.15 0.1 0.08 0.6))) \<and>
   shaped 1 1 (diff75 (derive (pixel 0.3 0.25 0.2 0.15 0.1 0.08 0.6))) \<and>
   shaped 1 1 (band7 (derive (pixel 0.3 0.25 0.2 0.15 0.1 0.08 0.6))) \<and>
   unambiguous_fire (derive (pixel 0.3 0.25 0.2 0.15 0.1 0.08 0.6)) ! 0 ! 0 \<and>
   f_gt (ratio75 (derive (pixel 0.3 0.25 0.2 0.15 0.1 0.08 0.6)) ! 0 ! 0) (Finite 2.5)"
proof -
  let ?g = "derive (pixel 0.3 0.25 0.2 0.15 0.1 0.08 0.6)"
  have s: "shaped 1 1 (ratio75 ?g)" "shaped 1 1 (diff75 ?g)" "shaped 1 1 (band7 ?g)"
    by (simp_all add: derive_pixel shaped_def)
  have t: "f_gt (ratio75 ?g ! 0 ! 0) (Finite 2.5) \<and> f_gt (diff75 ?g ! 0 ! 0) (Finite 0.3) \<and>
     f_gt (band7 ?g ! 0 ! 0) (Finite 0.5)"
    by (simp add: derive_pixel)
  show ?thesis
    using s t unambiguous_fire_iff [OF s, of 0 0] by simp
qed

subsection \<open>Water\<close>

text \<open>
  Claim C8, as amended. At every pixel \<open>water_pixels\<close> is True if and only if the base
  test (\<open>band4 > band5\<close>, \<open>band5 > band6\<close>, \<open>band6 > band7\<close>, \<open>diff17 < 0.2\<close>) and the
  water-type test (\<open>band3 > band2\<close>, or \<open>band1 > band2 > band3 > band4\<close>) both hold. The
  worked example (bands 0.3, 0.25, 0.2, 0.15, 0.1, 0.08, 0.05, so \<open>diff17 = 0.25\<close>) is
  False. With \<open>band1\<close> lowered to 0.2 the base test holds, but the water-type test does
  not (\<open>band1 = 0.2\<close> is not above \<open>band2 = 0.25\<close>, nor \<open>band3 = 0.2\<close>), and the pixel
  stays False.
\<close>

theorem water_pixels_iff:
  assumes "bands_shaped h w g" "shaped h w (diff17 g)" "i < h" "j < w"
  shows "(water_pixels g ! i ! j \<longleftrightarrow>
            ((f_gt (band4 g ! i ! j) (band5 g ! i ! j) \<and> f_gt (band5 g ! i ! j) (band6 g ! i ! j)) \<and>
             (f_gt (band6 g ! i ! j) (band7 g ! i ! j) \<and> f_lt (diff17 g ! i ! j) (Finite 0.2))) \<and>
            (f_gt (band3 g ! i ! j) (band2 g ! i ! j) \<or>
             ((f_gt (band1 g ! i ! j) (band2 g ! i ! j) \<and> f_gt (band2 g ! i ! j) (band3 g ! i ! j)) \<and>
              f_gt (band3 g ! i ! j) (band4 g ! i ! j)))) \<and>
         diff17 (derive (pixel 0.3 0.25 0.2 0.15 0.1 0.08 0.05)) = [[Finite 0.25]] \<and>
         water_pixels (derive (pixel 0.3 0.25 0.2 0.15 0.1 0.08 0.05)) = [[False]] \<and>
         diff17 (derive (pixel 0.2 0.25 0.2 0.15 0.1 0.08 0.05)) = [[Finite 0.15]] \<and>
         water_pixels (derive (pixel 0.2 0.25 0.2 0.15 0.1 0.08 0.05)) = [[False]]"
proof -
  have "diff17 (derive (pixel 0.3 0.25 0.2 0.15 0.1 0.08 0.05)) = [[Finite 0.25]]"
    "water_pixels (derive (pixel 0.3 0.25 0.2 0.15 0.1 0.08 0.05)) = [[False]]"
    "diff17 (derive (pixel 0.2 0.25 0.2 0.15 0.1 0.08 0.05)) = [[Finite 0.15]]"
    "water_pixels (derive (pixel 0.2 0.25 0.2 0.15 0.1 0.08 0.05)) = [[False]]"
    by (simp_all add: derive_pixel water_pixels_def Let_def grid_eval)
  then show ?thesis
    using water_pixels_nth [OF assms] by simp
qed

theorem water_pixels_iff_witness:
  "bands_shaped 1 1 (derive (pixel 0.2 0.15 0.1 0.05 0.04 0.03 0.02)) \<and>
   shaped 1 1 (diff17 (derive (pixel 0.2 0.15 0.1 0.05 0.04 0.03 0.02))) \<and>
   water_pixels (derive (pixel 0.2 0.15 0.1 0.05 0.04 0.03 0.02)) ! 0 ! 0 \<and>
   \<not> f_gt (band3 (derive (pixel 0.2 0.15 0.1 0.05 0.04 0.03 0.02)) ! 0 ! 0)
           (band2 (derive (pixel 0.2 0.15 0.1 0.05 0.04 0.03 0.02)) ! 0 ! 0)"
proof -
  let ?g = "derive (pixel 0.2 0.15 0.1 0.05 0.04 0.03 0.02)"
  have s: "bands_shaped 1 1 ?g" "shaped 1 1 (diff17 ?g)"
    by (simp_all add: derive_pixel shaped_def bands_shaped_def)
  have t: "f_gt (band4 ?g ! 0 ! 0) (band5 ?g ! 0 ! 0)" "f_gt (band5 ?g ! 0 ! 0) (band6 ?g ! 0 ! 0)"
    "f_gt (band6 ?g ! 0 ! 0) (band7 ?g ! 0 ! 0)" "f_lt (diff17 ?g ! 0 ! 0) (Finite 0.2)"
    "\<not> f_gt (band3 ?g ! 0 ! 0) (band2 ?g ! 0 ! 0)"
    "f_gt (band1 ?g ! 0 ! 0) (band2 ?g ! 0 ! 0)" "f_gt (band2 ?g ! 0 ! 0) (band3 ?g ! 0 ! 0)"
    "f_gt (band3 ?g ! 0 ! 0) (band4 ?g ! 0 ! 0)"
    by (simp_all add: derive_pixel f_lt_def)
  show ?thesis
    using s t water_pixels_iff [OF s, of 0 0] by simp
qed

text \<open>
  The worked example of the water detector as the specification has it: lowering \<open>band1\<close>
  to 0.2 does not make the pixel water.
\<close>

theorem water_example_counterexample:
  "water_pixels (derive (pixel 0.2 0.25 0.2 0.15 0.1 0.08 0.05)) \<noteq> [[True]]"
  by (simp add: derive_pixel water_pixels_def Let_def grid_eval)

subsection \<open>DN folding\<close>

text \<open>
  Claim C9. At every pixel \<open>dn_fold\<close> is True if and only if
  \<open>(band6 > 0.8 and band1 < 0.2) and (band5 > 0.4 or band7 < 0.1)\<close>. The pixel with
  \<open>band1 = 0.1\<close>, \<open>band5 = 0.5\<close>, \<open>band6 = 0.9\<close>, \<open>band7 = 0.05\<close> is True.
\<close>

theorem dn_fold_iff:
  assumes "shaped h w (band1 g)" "shaped h w (band5 g)" "shaped h w (band6 g)"
    "shaped h w (band7 g)" "i < h" "j < w"
  shows "(dn_fold g ! i ! j \<longleftrightarrow>
            (f_gt (band6 g ! i ! j) (Finite 0.8) \<and> f_lt (band1 g ! i ! j) (Finite 0.2)) \<and>
            (f_gt (band5 g ! i ! j) (Finite 0.4) \<or> f_lt (band7 g ! i ! j) (Finite 0.1))) \<and>
         dn_fold (derive (pixel 0.1 b2 b3 b4 0.5 0.9 0.05)) = [[True]]"
proof -
  have "dn_fold (derive (pixel 0.1 b2 b3 b4 0.5 0.9 0.05)) = [[True]]"
    by (simp add: derive_pixel dn_fold_def Let_def grid_eval)
  then show ?thesis
    using dn_fold_nth [OF assms] by simp
qed

theorem dn_fold_iff_witness:
  "shaped 1 1 (band1 (derive (pixel 0.1 0.25 0.2 0.15 0.3 0.9 0.05))) \<and>
   shaped 1 1 (band5 (derive (pixel 0.1 0.25 0.2 0.15 0.3 0.9 0.05))) \<and>
   shaped 1 1 (band6 (derive (pixel 0.1 0.25 0.2 0.15 0.3 0.9 0.05))) \<and>
   shaped 1 1 (band7 (derive (pixel 0.1 0.25 0.2 0.15 0.3 0.9 0.05))) \<and>
   dn_fold (derive (pixel 0.1 0.25 0.2 0.15 0.3 0.9 0.05)) ! 0 ! 0 \<and>
   \<not> f_gt (band5 (derive (pixel 0.1 0.25 0.2 0.15 0.3 0.9 0.05)) ! 0 ! 0) (Finite 0.4) \<and>
   f_lt (band7 (derive (pixel 0.1 0.25 0.2 0.15 0.3 0.9 0.05)) ! 0 ! 0) (Finite 0.1)"
proof -
  let ?g = "derive (pixel 0.1 0.25 0.2 0.15 0.3 0.9 0.05)"
  have s: "shaped 1 1 (band1 ?g)" "shaped 1 1 (band5 ?g)" "shaped 1 1 (band6 ?g)"
    "shaped 1 1 (band7 ?g)"
    by (simp_all add: derive_pixel shaped_def)
  have t: "f_gt (band6 ?g ! 0 ! 0) (Finite 0.8)" "f_lt (band1 ?g ! 0 ! 0) (Finite 0.2)"
    "\<not> f_gt (band5 ?g ! 0 ! 0) (Finite 0.4)" "f_lt (band7 ?g ! 0 ! 0) (Finite 0.1)"
    by (simp_all add: derive_pixel f_lt_def)
  show ?thesis
    using s t dn_fold_iff [OF s, of 0 0] by simp
qed

subsection \<open>Fire and water\<close>

text \<open>
  Claim C10. The unambiguous-fire mask and the water mask of one image are disjoint: no
  pixel is True in both. Unambiguous fire needs \<open>diff75 = band7 - band5 > 0.3\<close>, and at a
  water pixel \<open>band5 > band6 > band7\<close>, so \<open>diff75 < 0\<close> there.
\<close>

theorem fire_water_disjoint:
  assumes "bands_shaped h w b" "i < h" "j < w"
  shows "\<not> (unambiguous_fire (derive b) ! i ! j \<and> water_pixels (derive b) ! i ! j) \<and>
         (water_pixels (derive b) ! i ! j \<longrightarrow> f_lt (diff75 (derive b) ! i ! j) (Finite 0))"
proof -
  have d: "diff75 (derive b) ! i ! j = f_sub (band7 b ! i ! j) (band5 b ! i ! j)"
    using assms by (simp add: bands_shaped_def nth_map2g [where h = h and w = w])
  have u: "unambiguous_fire (derive b) ! i ! j \<Longrightarrow> f_gt (diff75 (derive b) ! i ! j) (Finite 0.3)"
    using unambiguous_fire_nth [of h w "derive b" i j] shaped_derive [OF assms(1)] assms
    by (simp add: bands_shaped_def)
  have v: "water_pixels (derive b) ! i ! j \<Longrightarrow>
      f_gt (band5 b ! i ! j) (band6 b ! i ! j) \<and> f_gt (band6 b ! i ! j) (band7 b ! i ! j)"
    using water_pixels_nth [of h w "derive b" i j] shaped_derive [OF assms(1)] assms
    by simp
  show ?thesis
    using u v d water_base_diff75 [of "band5 b ! i ! j" "band6 b ! i ! j" "band7 b ! i ! j"]
    by auto
qed

theorem fire_water_disjoint_witness:
  "bands_shaped 1 1 (pixel 0.1 0.2 0.3 0.15 0.1 0.08 0.05) \<and>
   water_pixels (derive (pixel 0.1 0.2 0.3 0.15 0.1 0.08 0.05)) ! 0 ! 0 \<and>
   \<not> unambiguous_fire (derive (pixel 0.1 0.2 0.3 0.15 0.1 0.08 0.05)) ! 0 ! 0 \<and>
   f_lt (diff75 (derive (pixel 0.1 0.2 0.3 0.15 0.1 0.08 0.05)) ! 0 ! 0) (Finite 0)"
proof -
  let ?b = "pixel 0.1 0.2 0.3 0.15 0.1 0.08 0.05"
  have s: "bands_shaped 1 1 ?b"
    using bands_shaped_pixel by simp
  have t: "water_pixels (derive ?b) ! 0 ! 0"
    by (simp add: derive_pixel water_pixels_def Let_def grid_eval)
  show ?thesis
    using s t fire_water_disjoint [OF s, of 0 0] by simp
qed

section \<open>Further properties\<close>

subsection \<open>The values of the classified array\<close>

text \<open>
  The value that the main calls give a pixel. It is
  \<open>1 * DN-fold + 2 * unambiguous-fire + 3 * potential-fire\<close>, where potential fire counts
  only as an unmasked True; an unambiguous-fire pixel is not background, so it is never
  counted as potential fire too. The value is one of 0, 1, 2, 3 and 4, and it is 4
  exactly at a DN-fold pixel that is also a potential-fire pixel. This holds under every
  rounding of the window statistics.
\<close>

theorem classify_value:
  assumes "bands_shaped h w b" "i < h" "j < w"
  shows "classify fl edges_check (derive b) ! i ! j \<in> {0, 1, 2, 3, 4} \<and>
         (classify fl edges_check (derive b) ! i ! j = 4 \<longleftrightarrow>
            dn_fold (derive b) ! i ! j \<and>
            visible (potential_fire fl (derive b)
              (background (derive b) (unambiguous_fire (derive b)) (water_pixels (derive b)))
              edges_check) i j = Some True)"
proof -
  let ?g = "derive b"
  let ?un = "unambiguous_fire ?g"
  let ?wa = "water_pixels ?g"
  let ?dn = "dn_fold ?g"
  let ?bg = "background ?g ?un ?wa"
  let ?p = "potential_fire fl ?g ?bg edges_check"
  have g: "bands_shaped h w ?g" "shaped h w (ratio75 ?g)" "shaped h w (diff75 ?g)"
    "shaped h w (diff17 ?g)"
    using shaped_derive [OF assms(1)] by simp_all
  have f: "fire_inputs_shaped h w ?g"
    using assms(1) by (rule fire_inputs_shaped_derive)
  have d: "shaped h w ?un" "shaped h w ?dn" "shaped h w ?wa"
    using shaped_detectors [OF g] by simp_all
  have b7: "shaped h w (band7 ?g)"
    using g(1) by (simp add: bands_shaped_def)
  have bg: "shaped h w ?bg"
    using d b7 by (simp add: shaped_background)
  have u: "?un ! i ! j \<Longrightarrow> \<not> ?bg ! i ! j"
    using background_nth [OF d(1) d(3) b7 assms(2,3)] by simp
  have v: "make_classified_array ?dn ?un ?p ! i ! j =
      (if ?dn ! i ! j then 1 else 0) + (if ?un ! i ! j then 2 else 0) +
      (if \<not> ma_mask ?p ! i ! j \<and> ma_data ?p ! i ! j then 3 else 0)"
    using make_classified_array_nth [OF d(2) d(1) shaped_potential_fire [OF f bg] assms(2,3)] .
  have m: "?un ! i ! j \<Longrightarrow> \<not> (\<not> ma_mask ?p ! i ! j \<and> ma_data ?p ! i ! j)"
    using potential_fire_nth [OF f bg assms(2,3), of fl edges_check] u by auto
  have c: "classify fl edges_check ?g = make_classified_array ?dn ?un ?p"
    by (simp add: classify_def Let_def)
  show ?thesis
    unfolding c v using m by (auto simp: visible_def)
qed

theorem classify_value_witness:
  "bands_shaped 1 1 fold_and_fire \<and> classify unrounded False (derive fold_and_fire) ! 0 ! 0 = 4 \<and>
   dn_fold (derive fold_and_fire) ! 0 ! 0 \<and>
   visible (potential_fire unrounded (derive fold_and_fire)
     (background (derive fold_and_fire) (unambiguous_fire (derive fold_and_fire))
        (water_pixels (derive fold_and_fire))) False) 0 0 = Some True"
proof -
  have s: "bands_shaped 1 1 fold_and_fire"
    using bands_shaped_pixel by (simp add: fold_and_fire_def)
  have lt: "(0::nat) < 1"
    by simp
  have c: "classify unrounded False (derive fold_and_fire) ! 0 ! 0 = 4"
    by (simp add: classify_dn_fold_potential [OF exact_on_quarters_unrounded])
  show ?thesis
    using s c classify_value [OF s lt lt, of unrounded False] by simp
qed

end
